theory Spec2Isabelle
  imports Complex_Main
begin

section \<open>Data model\<close>

text \<open>
  The development embeds the transcription pipeline of the server: the enrichment engine
  (\<^verbatim>\<open>services/vcon-enricher.ts\<close>), the document normaliser
  (\<^verbatim>\<open>services/vcon-parser.ts\<close>), the audio extractor
  (\<^verbatim>\<open>services/audio-extractor.ts\<close>, \<^verbatim>\<open>utils/audio.ts\<close>), the orchestrator
  (\<^verbatim>\<open>services/transcription.ts\<close>), the batch route (\<^verbatim>\<open>routes/transcribe.ts\<close>)
  and the response translation of the six providers (\<^verbatim>\<open>providers/*.ts\<close>).

  Conventions of the embedding.
  \<^item> A JavaScript number that holds a time, a confidence or a duration is a \<^typ>\<open>real\<close>,
    and a decimal literal of the source is the same decimal here. The order of the
    values is the program's; the rounding of sums, quotients and \<^verbatim>\<open>Math.exp\<close> is not
    modelled. Array positions, counters and counts are \<^typ>\<open>nat\<close>.
  \<^item> A string is a \<^typ>\<open>string\<close>, one \<^typ>\<open>char\<close> per code unit (code units below
    256).
  \<^item> An optional property is an \<^typ>\<open>'a option\<close>; a property written with the value
    \<^verbatim>\<open>undefined\<close> and an absent property are both \<^const>\<open>None\<close>.
  \<^item> A rejected promise or a thrown exception is the \<^const>\<open>Inl\<close> injection of a sum.
  \<^item> Record fields carry a prefix, since the interfaces of the source share the names
    \<^verbatim>\<open>start\<close>, \<^verbatim>\<open>end\<close>, \<^verbatim>\<open>text\<close>, \<^verbatim>\<open>confidence\<close>, \<^verbatim>\<open>words\<close>.
\<close>

subsection \<open>Provider-neutral result (\<^verbatim>\<open>types/asr.ts\<close>)\<close>

datatype AsrProvider = nvidia | openai | deepgram | groq | local_whisper | mlx_whisper

record AsrWord =
  aw_word :: string
  aw_start :: real
  aw_end :: real
  aw_confidence :: real

record AsrSegment =
  as_text :: string
  as_start :: real
  as_end :: real
  as_confidence :: real
  as_speaker :: "string option"
  as_words :: "AsrWord list option"

record AsrTranscribeResult =
  ar_text :: string
  ar_language :: string
  ar_duration :: real
  ar_confidence :: real
  ar_segments :: "AsrSegment list"
  ar_words :: "AsrWord list option"
  ar_processingTime :: real
  ar_provider :: AsrProvider
  ar_model :: "string option"

subsection \<open>Canonical transcription record (\<^verbatim>\<open>types/wtf.ts\<close>)\<close>

text \<open>The result of \<^verbatim>\<open>parseInt\<close>: an integer or \<^verbatim>\<open>NaN\<close>.\<close>

datatype js_int = NaN | IntVal int

record WtfWord =
  ww_id :: nat
  ww_start :: real
  ww_end :: real
  ww_text :: string
  ww_confidence :: real
  ww_speaker :: "js_int option"
  ww_is_punctuation :: bool

record WtfSegment =
  ws_id :: nat
  ws_start :: real
  ws_end :: real
  ws_text :: string
  ws_confidence :: real
  ws_speaker :: "js_int option"
  ws_words :: "nat list option"

record WtfSpeaker =
  sp_id :: js_int
  sp_label :: string
  sp_segments :: "nat list"
  sp_total_time :: "real option"

record WtfQuality =
  q_average_confidence :: real
  q_low_confidence_words :: nat
  q_multiple_speakers :: bool
  q_processing_warnings :: "string list"

record WtfTranscript =
  tr_text :: string
  tr_language :: string
  tr_duration :: real
  tr_confidence :: real

record WtfAudioMetadata =
  au_duration :: real

record WtfMetadata =
  md_created_at :: string
  md_processed_at :: string
  md_provider :: AsrProvider
  md_model :: "string option"
  md_processing_time :: real
  md_audio :: "WtfAudioMetadata option"

text \<open>
  A JavaScript \<^verbatim>\<open>Map\<close> and a plain object used as a dictionary are association lists
  with distinct keys, in insertion order. (\<^verbatim>\<open>Object.keys\<close> lists integer-like keys in
  ascending order first; only the number of keys is used below.)
\<close>

type_synonym ('k, 'v) js_map = "('k \<times> 'v) list"

record WtfTranscription =
  wtf_transcript :: WtfTranscript
  wtf_segments :: "WtfSegment list"
  wtf_metadata :: WtfMetadata
  wtf_words :: "WtfWord list option"
  wtf_speakers :: "(string, WtfSpeaker) js_map option"
  wtf_quality :: WtfQuality

record EnrichmentInput =
  ei_dialogIndex :: nat
  ei_transcription :: AsrTranscribeResult
  ei_provider :: AsrProvider
  ei_model :: "string option"
  ei_audioDuration :: "real option"

section \<open>Enrichment engine (\<^verbatim>\<open>services/vcon-enricher.ts\<close>)\<close>

subsection \<open>JavaScript primitives used by the enricher\<close>

definition map_has :: "('k, 'v) js_map \<Rightarrow> 'k \<Rightarrow> bool" where
  "map_has m k = (k \<in> set (map fst m))"

definition map_get :: "('k, 'v) js_map \<Rightarrow> 'k \<Rightarrow> 'v option" where
  "map_get m k = map_of m k"

fun map_set :: "('k, 'v) js_map \<Rightarrow> 'k \<Rightarrow> 'v \<Rightarrow> ('k, 'v) js_map" where
  "map_set [] k v = [(k, v)]"
| "map_set ((k', v') # m) k v = (if k' = k then (k, v) # m else (k', v') # map_set m k v)"

definition object_keys :: "('k, 'v) js_map \<Rightarrow> 'k list" where
  "object_keys obj = map fst obj"

text \<open>
  \<^verbatim>\<open>parseInt(s, 10)\<close>: leading white space is skipped, one sign is read, then the
  longest run of decimal digits; no digit gives \<^verbatim>\<open>NaN\<close>. The integer is kept exact
  (the program rounds it to a double beyond \<open>2 ^ 53\<close>).
\<close>

definition is_js_whitespace :: "char \<Rightarrow> bool" where
  "is_js_whitespace c =
     (c \<in> set [CHR 0x09, CHR 0x0A, CHR 0x0B, CHR 0x0C, CHR 0x0D, CHR 0x20, CHR 0xA0])"

definition is_decimal_digit :: "char \<Rightarrow> bool" where
  "is_decimal_digit c = (48 \<le> (of_char c :: nat) \<and> (of_char c :: nat) \<le> 57)"

fun digits_value :: "nat \<Rightarrow> string \<Rightarrow> nat" where
  "digits_value acc [] = acc"
| "digits_value acc (c # cs) = digits_value (10 * acc + ((of_char c :: nat) - 48)) cs"

definition parseInt10 :: "string \<Rightarrow> js_int" where
  "parseInt10 s =
     (let t = dropWhile is_js_whitespace s;
          neg = (case t of [] \<Rightarrow> False | c # _ \<Rightarrow> c = CHR ''-'');
          u = (case t of [] \<Rightarrow> [] | c # r \<Rightarrow> if c = CHR ''-'' \<or> c = CHR ''+'' then r else t);
          z = takeWhile is_decimal_digit u
      in if z = [] then NaN
         else IntVal ((if neg then - 1 else 1) * int (digits_value 0 z)))"

text \<open>\<^verbatim>\<open>String(n)\<close> for the result of \<^verbatim>\<open>parseInt\<close> (decimal notation).\<close>

definition digit_char :: "nat \<Rightarrow> char" where
  "digit_char d = char_of (of_char CHR ''0'' + d)"

fun string_of_nat :: "nat \<Rightarrow> string" where
  "string_of_nat n =
     (let last_digit = digit_char (n mod 10)
      in if n < 10 then [last_digit] else string_of_nat (n div 10) @ [last_digit])"

declare string_of_nat.simps [simp del]

definition String_of :: "js_int \<Rightarrow> string" where
  "String_of x =
     (case x of
        NaN \<Rightarrow> ''NaN''
      | IntVal i \<Rightarrow> (if i < 0 then ''-'' @ string_of_nat (nat (- i)) else string_of_nat (nat i)))"

text \<open>
  The regular expression \<^verbatim>\<open>/^[.,!?;:'"()-]$/\<close>: the anchors without the \<^verbatim>\<open>m\<close> flag
  are the two ends of the input, and the class holds eleven characters (the final
  \<^verbatim>\<open>-\<close> is literal).
\<close>

definition punctuation_class :: "char list" where
  "punctuation_class =
     [CHR ''.'', CHR '','', CHR ''!'', CHR ''?'', CHR '';'', CHR '':'', CHR 0x27, CHR 0x22,
      CHR ''('', CHR '')'', CHR ''-'']"

definition punctuation_regex_test :: "string \<Rightarrow> bool" where
  "punctuation_regex_test s = (case s of [c] \<Rightarrow> c \<in> set punctuation_class | _ \<Rightarrow> False)"

subsection \<open>\<^verbatim>\<open>createWtfTranscription\<close>: the words array\<close>

definition top_level_word :: "nat \<Rightarrow> AsrWord \<Rightarrow> WtfWord" where
  "top_level_word wordId w =
     \<lparr>ww_id = wordId, ww_start = aw_start w, ww_end = aw_end w, ww_text = aw_word w,
      ww_confidence = aw_confidence w, ww_speaker = None,
      ww_is_punctuation = punctuation_regex_test (aw_word w)\<rparr>"

text \<open>\<^verbatim>\<open>seg.speaker ? parseInt(seg.speaker, 10) : undefined\<close>: the empty string is falsy.\<close>

definition speaker_number :: "string option \<Rightarrow> js_int option" where
  "speaker_number sp =
     (case sp of None \<Rightarrow> None | Some s \<Rightarrow> if s = [] then None else Some (parseInt10 s))"

definition nested_word :: "AsrSegment \<Rightarrow> nat \<Rightarrow> AsrWord \<Rightarrow> WtfWord" where
  "nested_word seg wordId w =
     \<lparr>ww_id = wordId, ww_start = aw_start w, ww_end = aw_end w, ww_text = aw_word w,
      ww_confidence = aw_confidence w, ww_speaker = speaker_number (as_speaker seg),
      ww_is_punctuation = punctuation_regex_test (aw_word w)\<rparr>"

text \<open>
  The loops push onto \<^verbatim>\<open>words\<close> and post-increment \<^verbatim>\<open>wordId\<close>; the state is the pair
  of both.
\<close>

fun push_words ::
  "(nat \<Rightarrow> AsrWord \<Rightarrow> WtfWord) \<Rightarrow> AsrWord list \<Rightarrow> WtfWord list \<times> nat \<Rightarrow> WtfWord list \<times> nat"
where
  "push_words mk [] st = st"
| "push_words mk (w # ws) st = push_words mk ws (fst st @ [mk (snd st) w], Suc (snd st))"

fun push_segment_words :: "AsrSegment list \<Rightarrow> WtfWord list \<times> nat \<Rightarrow> WtfWord list \<times> nat" where
  "push_segment_words [] st = st"
| "push_segment_words (seg # segs) st =
     push_segment_words segs
       (case as_words seg of None \<Rightarrow> st | Some ws \<Rightarrow> push_words (nested_word seg) ws st)"

definition build_words :: "AsrTranscribeResult \<Rightarrow> WtfWord list" where
  "build_words t =
     fst (case ar_words t of
            Some ws \<Rightarrow> push_words top_level_word ws ([], 0)
          | None \<Rightarrow> push_segment_words (ar_segments t) ([], 0))"

subsection \<open>\<^verbatim>\<open>createWtfTranscription\<close>: the segments array\<close>

definition segment_word_ids :: "WtfWord list \<Rightarrow> AsrSegment \<Rightarrow> nat list" where
  "segment_word_ids words seg =
     map ww_id (filter (\<lambda>w. ww_start w \<ge> as_start seg \<and> ww_end w \<le> as_end seg) words)"

definition build_segment :: "WtfWord list \<Rightarrow> AsrSegment \<Rightarrow> nat \<Rightarrow> WtfSegment" where
  "build_segment words seg idx =
     (let segmentWordIds = segment_word_ids words seg
      in \<lparr>ws_id = idx, ws_start = as_start seg, ws_end = as_end seg, ws_text = as_text seg,
          ws_confidence = as_confidence seg, ws_speaker = speaker_number (as_speaker seg),
          ws_words = (if length segmentWordIds > 0 then Some segmentWordIds else None)\<rparr>)"

definition build_segments :: "WtfWord list \<Rightarrow> AsrSegment list \<Rightarrow> WtfSegment list" where
  "build_segments words segs =
     map (\<lambda>(seg, idx). build_segment words seg idx) (zip segs [0..<length segs])"

subsection \<open>\<^verbatim>\<open>createWtfTranscription\<close>: the speakers map\<close>

text \<open>
  One round of the loop over the built segments; the state is the pair of the maps
  \<^verbatim>\<open>speakerSegments\<close> and \<^verbatim>\<open>speakerTimes\<close>. After the \<^verbatim>\<open>has\<close> check both maps
  hold the key, so the two \<^verbatim>\<open>get(speakerId)!\<close> find a value and the \<^const>\<open>None\<close>
  branches below are never taken.
\<close>

definition speaker_step ::
  "(string, nat list) js_map \<times> (string, real) js_map \<Rightarrow> WtfSegment \<Rightarrow>
   (string, nat list) js_map \<times> (string, real) js_map"
where
  "speaker_step st seg =
     (case ws_speaker seg of
        None \<Rightarrow> st
      | Some sp \<Rightarrow>
          (let speakerId = String_of sp;
               st1 = (if \<not> map_has (fst st) speakerId
                      then (map_set (fst st) speakerId [], map_set (snd st) speakerId 0)
                      else st);
               speakerSegments =
                 map_set (fst st1) speakerId
                   (case map_get (fst st1) speakerId of None \<Rightarrow> [ws_id seg]
                    | Some ids \<Rightarrow> ids @ [ws_id seg]);
               speakerTimes =
                 map_set (snd st1) speakerId
                   (case map_get (snd st1) speakerId of None \<Rightarrow> ws_end seg - ws_start seg
                    | Some t \<Rightarrow> t + (ws_end seg - ws_start seg))
           in (speakerSegments, speakerTimes)))"

definition speaker_maps ::
  "WtfSegment list \<Rightarrow> (string, nat list) js_map \<times> (string, real) js_map" where
  "speaker_maps segments = foldl speaker_step ([], []) segments"

definition build_speakers :: "WtfSegment list \<Rightarrow> (string, WtfSpeaker) js_map" where
  "build_speakers segments =
     (let speakerSegments = fst (speaker_maps segments);
          speakerTimes = snd (speaker_maps segments)
      in foldl (\<lambda>speakers (speakerId, segIds).
                  map_set speakers speakerId
                    \<lparr>sp_id = parseInt10 speakerId, sp_label = ''Speaker '' @ speakerId,
                     sp_segments = segIds, sp_total_time = map_get speakerTimes speakerId\<rparr>)
           [] speakerSegments)"

subsection \<open>\<^verbatim>\<open>createWtfTranscription\<close>: quality and assembly\<close>

definition low_confidence_count :: "WtfWord list \<Rightarrow> nat" where
  "low_confidence_count words = length (filter (\<lambda>w. ww_confidence w < 0.7) words)"

definition build_quality ::
  "AsrTranscribeResult \<Rightarrow> WtfWord list \<Rightarrow> (string, WtfSpeaker) js_map \<Rightarrow> WtfQuality" where
  "build_quality t words speakers =
     (let lowConfidenceWords = low_confidence_count words
      in \<lparr>q_average_confidence = ar_confidence t,
          q_low_confidence_words = lowConfidenceWords,
          q_multiple_speakers = (length (object_keys speakers) > 1),
          q_processing_warnings =
            (if real lowConfidenceWords > real (length words) * 0.1
             then [''High number of low-confidence words''] else [])\<rparr>)"

text \<open>
  \<^verbatim>\<open>now\<close> is the value of \<^verbatim>\<open>new Date().toISOString()\<close> at the call.
  \<^verbatim>\<open>audioDuration ? {...} : undefined\<close>: a duration of \<open>0\<close> is falsy.
\<close>

definition createWtfTranscription :: "string \<Rightarrow> EnrichmentInput \<Rightarrow> WtfTranscription" where
  "createWtfTranscription now input =
     (let transcription = ei_transcription input;
          words = build_words transcription;
          segments = build_segments words (ar_segments transcription);
          speakers = build_speakers segments;
          quality = build_quality transcription words speakers
      in \<lparr>wtf_transcript =
            \<lparr>tr_text = ar_text transcription, tr_language = ar_language transcription,
             tr_duration = ar_duration transcription,
             tr_confidence = ar_confidence transcription\<rparr>,
          wtf_segments = segments,
          wtf_metadata =
            \<lparr>md_created_at = now, md_processed_at = now, md_provider = ei_provider input,
             md_model = ei_model input,
             md_processing_time = ar_processingTime transcription / 1000,
             md_audio =
               (case ei_audioDuration input of
                  None \<Rightarrow> None
                | Some d \<Rightarrow> if d = 0 then None else Some \<lparr>au_duration = d\<rparr>)\<rparr>,
          wtf_words = (if length words > 0 then Some words else None),
          wtf_speakers = (if length (object_keys speakers) > 0 then Some speakers else None),
          wtf_quality = quality\<rparr>)"

section \<open>Conversation document\<close>

subsection \<open>Document types (\<^verbatim>\<open>types/vcon.ts\<close>)\<close>

text \<open>
  The interfaces keep the properties the pipeline reads; the remaining optional
  properties of an entry (and the properties the schema passes through) are carried
  uninterpreted in the \<open>other\<close> field, as pairs of a key and a serialised value.
\<close>

datatype DialogType = Recording | Text | Transfer | Incomplete

datatype Encoding = Base64url | Json | NoEncoding

datatype IndexRef = OneIndex nat | ManyIndices "nat list"

record Party =
  p_tel :: "string option"
  p_mailto :: "string option"
  p_name :: "string option"
  p_uuid :: "string option"
  p_role :: "string option"
  p_other :: "(string \<times> string) list"

record Dialog =
  d_type :: DialogType
  d_start :: string
  d_duration :: "real option"
  d_parties :: IndexRef
  d_mediatype :: "string option"
  d_filename :: "string option"
  d_body :: "string option"
  d_encoding :: "Encoding option"
  d_url :: "string option"
  d_other :: "(string \<times> string) list"

datatype AnalysisBody =
  BodyString string | BodyObject "(string \<times> string) list" | BodyWtf WtfTranscription

record Analysis =
  an_type :: string
  an_dialog :: "IndexRef option"
  an_mediatype :: "string option"
  an_filename :: "string option"
  an_vendor :: string
  an_product :: "string option"
  an_schema :: "string option"
  an_body :: "AnalysisBody option"
  an_encoding :: "Encoding option"
  an_url :: "string option"
  an_other :: "(string \<times> string) list"

record Attachment =
  at_type :: "string option"
  at_start :: "string option"
  at_party :: "nat option"
  at_mediatype :: string
  at_filename :: "string option"
  at_body :: "string option"
  at_encoding :: "Encoding option"
  at_url :: "string option"
  at_dialog :: "nat option"
  at_other :: "(string \<times> string) list"

text \<open>A group, redacted or appended reference; a nested document stays serialised.\<close>

record VconRef =
  ref_uuid :: string
  ref_vcon :: "string option"
  ref_url :: "string option"

record Vcon =
  v_vcon :: string
  v_uuid :: string
  v_created_at :: string
  v_updated_at :: "string option"
  v_subject :: "string option"
  v_parties :: "Party list"
  v_dialog :: "Dialog list option"
  v_analysis :: "Analysis list option"
  v_attachments :: "Attachment list option"
  v_group :: "VconRef list option"
  v_redacted :: "VconRef option"
  v_appended :: "VconRef option"

text \<open>\<^verbatim>\<open>NormalizedVcon extends Vcon\<close> with the three arrays guaranteed.\<close>

record NormalizedVcon =
  nv_vcon :: string
  nv_uuid :: string
  nv_created_at :: string
  nv_updated_at :: "string option"
  nv_subject :: "string option"
  nv_parties :: "Party list"
  nv_dialog :: "Dialog list"
  nv_analysis :: "Analysis list"
  nv_attachments :: "Attachment list"
  nv_group :: "VconRef list option"
  nv_redacted :: "VconRef option"
  nv_appended :: "VconRef option"

text \<open>
  The view of a normalized document at its supertype: TypeScript passes a
  \<^verbatim>\<open>NormalizedVcon\<close> wherever a \<^verbatim>\<open>Vcon\<close> is expected.
\<close>

definition as_Vcon :: "NormalizedVcon \<Rightarrow> Vcon" where
  "as_Vcon n =
     \<lparr>v_vcon = nv_vcon n, v_uuid = nv_uuid n, v_created_at = nv_created_at n,
      v_updated_at = nv_updated_at n, v_subject = nv_subject n, v_parties = nv_parties n,
      v_dialog = Some (nv_dialog n), v_analysis = Some (nv_analysis n),
      v_attachments = Some (nv_attachments n), v_group = nv_group n,
      v_redacted = nv_redacted n, v_appended = nv_appended n\<rparr>"

subsection \<open>\<^verbatim>\<open>normalizeVcon\<close> (\<^verbatim>\<open>services/vcon-parser.ts\<close>)\<close>

text \<open>\<^verbatim>\<open>x ?? []\<close> on an optional array.\<close>

definition or_empty :: "'a list option \<Rightarrow> 'a list" where
  "or_empty xs = (case xs of None \<Rightarrow> [] | Some ys \<Rightarrow> ys)"

definition normalizeVcon :: "Vcon \<Rightarrow> NormalizedVcon" where
  "normalizeVcon vcon =
     \<lparr>nv_vcon = v_vcon vcon, nv_uuid = v_uuid vcon, nv_created_at = v_created_at vcon,
      nv_updated_at = v_updated_at vcon, nv_subject = v_subject vcon,
      nv_parties = v_parties vcon,
      nv_dialog = or_empty (v_dialog vcon),
      nv_analysis = or_empty (v_analysis vcon),
      nv_attachments = or_empty (v_attachments vcon),
      nv_group = v_group vcon, nv_redacted = v_redacted vcon,
      nv_appended = v_appended vcon\<rparr>"

subsection \<open>\<^verbatim>\<open>createWtfAnalysis\<close> and \<^verbatim>\<open>enrichVconWithTranscriptions\<close>\<close>

definition provider_name :: "AsrProvider \<Rightarrow> string" where
  "provider_name p =
     (case p of nvidia \<Rightarrow> ''nvidia'' | openai \<Rightarrow> ''openai'' | deepgram \<Rightarrow> ''deepgram''
      | groq \<Rightarrow> ''groq'' | local_whisper \<Rightarrow> ''local-whisper''
      | mlx_whisper \<Rightarrow> ''mlx-whisper'')"

definition createWtfAnalysis ::
  "nat \<Rightarrow> WtfTranscription \<Rightarrow> AsrProvider \<Rightarrow> string option \<Rightarrow> Analysis" where
  "createWtfAnalysis dialogIndex wtf provider model =
     \<lparr>an_type = ''wtf_transcription'', an_dialog = Some (OneIndex dialogIndex),
      an_mediatype = Some ''application/json'', an_filename = None,
      an_vendor = provider_name provider,
      an_product = Some (case model of None \<Rightarrow> provider_name provider | Some m \<Rightarrow> m),
      an_schema = Some ''wtf-1.0'', an_body = Some (BodyWtf wtf), an_encoding = Some Json,
      an_url = None, an_other = []\<rparr>"

text \<open>
  The clock is read once by every \<^verbatim>\<open>createWtfTranscription\<close> and once more for
  \<^verbatim>\<open>updated_at\<close>: \<open>clock k\<close> is the \<open>k\<close>-th reading of the call, and the loop state
  is the pair of \<^verbatim>\<open>newAnalyses\<close> and the number of readings so far.
\<close>

fun enrich_loop ::
  "(nat \<Rightarrow> string) \<Rightarrow> EnrichmentInput list \<Rightarrow> Analysis list \<times> nat \<Rightarrow> Analysis list \<times> nat"
where
  "enrich_loop clock [] st = st"
| "enrich_loop clock (input # rest) st =
     enrich_loop clock rest
       (fst st @
          [createWtfAnalysis (ei_dialogIndex input)
             (createWtfTranscription (clock (snd st)) input) (ei_provider input)
             (ei_model input)],
        Suc (snd st))"

definition enrichVconWithTranscriptions ::
  "(nat \<Rightarrow> string) \<Rightarrow> NormalizedVcon \<Rightarrow> EnrichmentInput list \<Rightarrow> NormalizedVcon" where
  "enrichVconWithTranscriptions clock vcon enrichments =
     (let st = enrich_loop clock enrichments ([], 0);
          newAnalyses = fst st
      in vcon\<lparr>nv_updated_at := Some (clock (snd st)),
              nv_analysis := nv_analysis vcon @ newAnalyses\<rparr>)"

section \<open>Audio extraction\<close>

subsection \<open>\<^verbatim>\<open>utils/audio.ts\<close>\<close>

type_synonym bytes = "nat list"

definition SUPPORTED_AUDIO_TYPES :: "string list" where
  "SUPPORTED_AUDIO_TYPES =
     [''audio/wav'', ''audio/wave'', ''audio/x-wav'', ''audio/mp3'', ''audio/mpeg'',
      ''audio/flac'', ''audio/ogg'', ''audio/webm'', ''audio/x-m4a'', ''audio/mp4'']"

definition isSupportedAudioType :: "string \<Rightarrow> bool" where
  "isSupportedAudioType mediatype = (mediatype \<in> set SUPPORTED_AUDIO_TYPES)"

text \<open>A string is truthy when it is present and not empty.\<close>

definition truthy :: "string option \<Rightarrow> bool" where
  "truthy s = (case s of None \<Rightarrow> False | Some x \<Rightarrow> x \<noteq> [])"

definition isAudioDialog :: "Dialog \<Rightarrow> bool" where
  "isAudioDialog dialog =
     (if d_type dialog \<noteq> Recording then False
      else if \<not> truthy (d_mediatype dialog) then False
      else isSupportedAudioType (the (d_mediatype dialog)))"

text \<open>
  The collaborators outside the repository: the HTTP client (\<^verbatim>\<open>undici\<close>, which
  rejects on a failed request; \<^const>\<open>Inl\<close> carries the message that the
  \<^verbatim>\<open>catch\<close> block of the extractor records), \<^verbatim>\<open>Buffer.from\<close> for the two
  encodings, the rendering of a number in a template string, the clock, the schema
  library (\<^verbatim>\<open>zod\<close>, applied to \<^verbatim>\<open>VconSchema\<close>) and the provider registry
  (\<^verbatim>\<open>getProvider\<close>, total on the six provider names). The raw request body has the
  type \<^typ>\<open>'raw\<close>.
\<close>

datatype PathElem = Key string | Index nat

record ZodIssue =
  zi_path :: "PathElem list"
  zi_message :: string

record AsrTranscribeOptions =
  o_language :: "string option"
  o_punctuation :: "bool option"
  o_wordTimestamps :: "bool option"
  o_speakerDiarization :: "bool option"
  o_profanityFilter :: "bool option"

record AsrTranscribeRequest =
  rq_audioBuffer :: bytes
  rq_mediatype :: string
  rq_language :: "string option"
  rq_options :: "AsrTranscribeOptions option"

text \<open>
  A provider instance: its name, \<^verbatim>\<open>isConfigured()\<close> and \<^verbatim>\<open>transcribe\<close>, which
  resolves to a result or rejects with a message.
\<close>

record AsrProviderClient =
  pc_provider :: AsrProvider
  pc_isConfigured :: bool
  pc_transcribe :: "AsrTranscribeRequest \<Rightarrow> string + AsrTranscribeResult"

record Config =
  cfg_asrProvider :: AsrProvider
  cfg_maxAudioSizeMb :: real

record 'raw Env =
  env_config :: Config
  env_safeParse :: "'raw \<Rightarrow> ZodIssue list + Vcon"
  env_getProvider :: "AsrProvider \<Rightarrow> AsrProviderClient"
  env_request :: "string \<Rightarrow> string + bytes"
  env_base64 :: "string \<Rightarrow> bytes"
  env_binary :: "string \<Rightarrow> bytes"
  env_number_text :: "real \<Rightarrow> string"
  env_clock :: "nat \<Rightarrow> string"
  env_elapsed :: real

text \<open>
  \<^verbatim>\<open>decodeBase64Url\<close>: the two replacements, the padding
  \<^verbatim>\<open>"=".repeat((4 - (base64.length % 4)) % 4)\<close>, then \<^verbatim>\<open>Buffer.from(padded, "base64")\<close>.
\<close>

definition decodeBase64Url :: "'raw Env \<Rightarrow> string \<Rightarrow> bytes" where
  "decodeBase64Url env base64url =
     (let base64 =
            map (\<lambda>c. if c = CHR ''_'' then CHR ''/'' else c)
              (map (\<lambda>c. if c = CHR ''-'' then CHR ''+'' else c) base64url);
          padded = base64 @ replicate ((4 - (length base64 mod 4)) mod 4) CHR ''=''
      in env_base64 env padded)"

definition extractAudioFromDialog ::
  "'raw Env \<Rightarrow> Dialog \<Rightarrow> string + (bytes \<times> string) option" where
  "extractAudioFromDialog env dialog =
     (if \<not> isAudioDialog dialog then Inr None
      else
        (let mediatype = the (d_mediatype dialog);
             inline =
               (if truthy (d_body dialog) then
                  (let encoding = (case d_encoding dialog of None \<Rightarrow> Base64url | Some e \<Rightarrow> e)
                   in if encoding = Base64url
                      then Some (decodeBase64Url env (the (d_body dialog)), mediatype)
                      else if encoding = NoEncoding
                      then Some (env_binary env (the (d_body dialog)), mediatype)
                      else None)
                else None)
         in case inline of
              Some audio \<Rightarrow> Inr (Some audio)
            | None \<Rightarrow>
                (if truthy (d_url dialog) then
                   (case env_request env (the (d_url dialog)) of
                      Inl err \<Rightarrow> Inl err
                    | Inr buffer \<Rightarrow> Inr (Some (buffer, mediatype)))
                 else Inr None)))"

subsection \<open>\<^verbatim>\<open>extractAudioFromDialogs\<close> (\<^verbatim>\<open>services/audio-extractor.ts\<close>)\<close>

record ExtractedAudio =
  ea_dialogIndex :: nat
  ea_buffer :: bytes
  ea_mediatype :: string
  ea_duration :: "real option"

record ExtractionError =
  ee_dialogIndex :: nat
  ee_error :: string

record ExtractionResult =
  ex_extracted :: "ExtractedAudio list"
  ex_errors :: "ExtractionError list"
  ex_skipped :: "nat list"

definition extract_step :: "'raw Env \<Rightarrow> ExtractionResult \<Rightarrow> nat \<times> Dialog \<Rightarrow> ExtractionResult" where
  "extract_step env result entry =
     (let index = fst entry; dialog = snd entry;
          maxSizeBytes = cfg_maxAudioSizeMb (env_config env) * 1024 * 1024
      in if \<not> isAudioDialog dialog
         then result\<lparr>ex_skipped := ex_skipped result @ [index]\<rparr>
         else
           (case extractAudioFromDialog env dialog of
              Inl message \<Rightarrow>
                result\<lparr>ex_errors := ex_errors result @
                  [\<lparr>ee_dialogIndex = index, ee_error = message\<rparr>]\<rparr>
            | Inr None \<Rightarrow>
                result\<lparr>ex_errors := ex_errors result @
                  [\<lparr>ee_dialogIndex = index, ee_error = ''Failed to extract audio content''\<rparr>]\<rparr>
            | Inr (Some audio) \<Rightarrow>
                if real (length (fst audio)) > maxSizeBytes
                then result\<lparr>ex_errors := ex_errors result @
                  [\<lparr>ee_dialogIndex = index,
                    ee_error = ''Audio exceeds maximum size of '' @
                      env_number_text env (cfg_maxAudioSizeMb (env_config env)) @ ''MB''\<rparr>]\<rparr>
                else result\<lparr>ex_extracted := ex_extracted result @
                  [\<lparr>ea_dialogIndex = index, ea_buffer = fst audio, ea_mediatype = snd audio,
                    ea_duration = d_duration dialog\<rparr>]\<rparr>))"

definition extractAudioFromDialogs ::
  "'raw Env \<Rightarrow> (nat \<times> Dialog) list \<Rightarrow> ExtractionResult" where
  "extractAudioFromDialogs env dialogs =
     foldl (extract_step env) \<lparr>ex_extracted = [], ex_errors = [], ex_skipped = []\<rparr> dialogs"

section \<open>Parsing and orchestration\<close>

subsection \<open>\<^verbatim>\<open>parseVcon\<close> (\<^verbatim>\<open>services/vcon-parser.ts\<close>)\<close>

record Detail =
  dt_path :: string
  dt_message :: string

datatype VconParseResult =
  ParseResult NormalizedVcon "(nat \<times> Dialog) list"
| ParseError string "Detail list option"

fun join :: "string \<Rightarrow> string list \<Rightarrow> string" where
  "join sep [] = []"
| "join sep [x] = x"
| "join sep (x # y # ys) = x @ sep @ join sep (y # ys)"

definition path_elem_text :: "PathElem \<Rightarrow> string" where
  "path_elem_text e = (case e of Key k \<Rightarrow> k | Index i \<Rightarrow> string_of_nat i)"

definition issue_detail :: "ZodIssue \<Rightarrow> Detail" where
  "issue_detail e =
     \<lparr>dt_path = join ''.'' (map path_elem_text (zi_path e)), dt_message = zi_message e\<rparr>"

definition parseVcon :: "('raw \<Rightarrow> ZodIssue list + Vcon) \<Rightarrow> 'raw \<Rightarrow> VconParseResult" where
  "parseVcon safeParse input =
     (case safeParse input of
        Inl errors \<Rightarrow> ParseError ''Invalid VCON format'' (Some (map issue_detail errors))
      | Inr data \<Rightarrow>
          (let vcon = normalizeVcon data;
               audioDialogs =
                 filter (\<lambda>entry. isAudioDialog (snd entry))
                   (map (\<lambda>(dialog, index). (index, dialog))
                      (zip (nv_dialog vcon) [0..<length (nv_dialog vcon)]))
           in ParseResult vcon audioDialogs))"

subsection \<open>\<^verbatim>\<open>BaseAsrProvider.transcribeBatch\<close> (\<^verbatim>\<open>providers/base.ts\<close>)\<close>

text \<open>
  \<^verbatim>\<open>Promise.all\<close>: the results in the order of the promises, or the rejection of one
  of them. (The program rejects with the rejection that settles first; the model takes
  the first in list order, and no statement below depends on which message it is.)
\<close>

fun promise_all :: "(string + 'a) list \<Rightarrow> string + 'a list" where
  "promise_all [] = Inr []"
| "promise_all (p # ps) =
     (case p of
        Inl err \<Rightarrow> Inl err
      | Inr x \<Rightarrow> (case promise_all ps of Inl err \<Rightarrow> Inl err | Inr xs \<Rightarrow> Inr (x # xs)))"

definition transcribeBatch ::
  "AsrProviderClient \<Rightarrow> AsrTranscribeRequest list \<Rightarrow> string + AsrTranscribeResult list" where
  "transcribeBatch provider requests = promise_all (map (pc_transcribe provider) requests)"

subsection \<open>\<^verbatim>\<open>transcribeVcon\<close> (\<^verbatim>\<open>services/transcription.ts\<close>)\<close>

record TranscriptionOptions =
  to_provider :: "AsrProvider option"
  to_model :: "string option"
  to_language :: "string option"
  to_wordTimestamps :: "bool option"
  to_speakerDiarization :: "bool option"

record Stats =
  st_dialogsProcessed :: nat
  st_dialogsSkipped :: nat
  st_dialogsFailed :: nat
  st_totalProcessingTime :: real
  st_provider :: AsrProvider
  st_model :: "string option"

datatype TranscriptionResult =
  TranscriptionSuccess NormalizedVcon Stats
| TranscriptionFailure string "Detail list option"

text \<open>The steps of the pipeline that a call entered, in order.\<close>

datatype Step = ParseValidate | ExtractAudio | Dispatch | Enrich

definition option_or :: "'a option \<Rightarrow> 'a \<Rightarrow> 'a" where
  "option_or x d = (case x of None \<Rightarrow> d | Some y \<Rightarrow> y)"

definition request_of :: "TranscriptionOptions option \<Rightarrow> ExtractedAudio \<Rightarrow> AsrTranscribeRequest" where
  "request_of options audio =
     \<lparr>rq_audioBuffer = ea_buffer audio, rq_mediatype = ea_mediatype audio,
      rq_language = Option.bind options to_language,
      rq_options =
        Some \<lparr>o_language = None, o_punctuation = Some True,
              o_wordTimestamps = Some (option_or (Option.bind options to_wordTimestamps) True),
              o_speakerDiarization =
                Some (option_or (Option.bind options to_speakerDiarization) False),
              o_profanityFilter = None\<rparr>\<rparr>"

definition enrichment_input :: "ExtractedAudio \<times> AsrTranscribeResult \<Rightarrow> EnrichmentInput" where
  "enrichment_input entry =
     \<lparr>ei_dialogIndex = ea_dialogIndex (fst entry), ei_transcription = snd entry,
      ei_provider = ar_provider (snd entry), ei_model = ar_model (snd entry),
      ei_audioDuration = ea_duration (fst entry)\<rparr>"

definition extraction_detail :: "ExtractionError \<Rightarrow> Detail" where
  "extraction_detail e =
     \<lparr>dt_path = ''dialog['' @ string_of_nat (ee_dialogIndex e) @ '']'',
      dt_message = ee_error e\<rparr>"

text \<open>
  The call returns the steps it entered and its outcome: \<^const>\<open>Inl\<close> when the promise is
  rejected (a backend call failed: the function has no handler), \<^const>\<open>Inr\<close> with the
  \<^verbatim>\<open>TranscriptionResult\<close> otherwise.
\<close>

definition transcribeVcon_run ::
  "'raw Env \<Rightarrow> 'raw \<Rightarrow> TranscriptionOptions option \<Rightarrow> Step list \<times> (string + TranscriptionResult)"
where
  "transcribeVcon_run env input options =
     (let providerName =
            option_or (Option.bind options to_provider) (cfg_asrProvider (env_config env));
          provider = env_getProvider env providerName
      in if \<not> pc_isConfigured provider then
           ([], Inr (TranscriptionFailure
              (''ASR provider '' @ [CHR 0x27] @ provider_name providerName @ [CHR 0x27] @
               '' is not configured. Check environment variables.'') None))
         else
           (case parseVcon (env_safeParse env) input of
              ParseError error details \<Rightarrow>
                ([ParseValidate], Inr (TranscriptionFailure error details))
            | ParseResult vcon audioDialogs \<Rightarrow>
                if length audioDialogs = 0 then
                  ([ParseValidate],
                   Inr (TranscriptionFailure ''No audio dialogs found in VCON'' None))
                else
                  (let extraction = extractAudioFromDialogs env audioDialogs
                   in if length (ex_extracted extraction) = 0 then
                        ([ParseValidate, ExtractAudio],
                         Inr (TranscriptionFailure ''Failed to extract audio from any dialog''
                                (Some (map extraction_detail (ex_errors extraction)))))
                      else
                        (let transcribeRequests =
                               map (\<lambda>audio. (audio, request_of options audio))
                                 (ex_extracted extraction)
                         in case transcribeBatch provider (map snd transcribeRequests) of
                              Inl err \<Rightarrow> ([ParseValidate, ExtractAudio, Dispatch], Inl err)
                            | Inr batchResults \<Rightarrow>
                                (let transcriptionResults =
                                       zip (map fst transcribeRequests) batchResults;
                                     enrichments = map enrichment_input transcriptionResults;
                                     enrichedVcon =
                                       enrichVconWithTranscriptions (env_clock env) vcon
                                         enrichments
                                 in ([ParseValidate, ExtractAudio, Dispatch, Enrich],
                                     Inr (TranscriptionSuccess enrichedVcon
                                       \<lparr>st_dialogsProcessed = length transcriptionResults,
                                        st_dialogsSkipped = length (ex_skipped extraction),
                                        st_dialogsFailed = length (ex_errors extraction),
                                        st_totalProcessingTime = env_elapsed env,
                                        st_provider = providerName,
                                        st_model =
                                          (case transcriptionResults of
                                             [] \<Rightarrow> None
                                           | r # _ \<Rightarrow> ar_model (snd r))\<rparr>)))))))"

definition transcribeVcon ::
  "'raw Env \<Rightarrow> 'raw \<Rightarrow> TranscriptionOptions option \<Rightarrow> string + TranscriptionResult" where
  "transcribeVcon env input options = snd (transcribeVcon_run env input options)"

subsection \<open>The batch route (\<^verbatim>\<open>POST /transcribe/batch\<close>)\<close>

datatype BatchItem =
  BatchSuccess NormalizedVcon
| BatchFailure string "Detail list option"

record BatchSummary =
  bs_total :: nat
  bs_succeeded :: nat
  bs_failed :: nat
  bs_provider :: AsrProvider

record BatchReply =
  br_results :: "BatchItem list"
  br_summary :: BatchSummary

definition batch_item :: "TranscriptionResult \<Rightarrow> BatchItem" where
  "batch_item result =
     (case result of
        TranscriptionSuccess vcon stats \<Rightarrow> BatchSuccess vcon
      | TranscriptionFailure error details \<Rightarrow> BatchFailure error details)"

definition item_success :: "BatchItem \<Rightarrow> bool" where
  "item_success r = (case r of BatchSuccess vcon \<Rightarrow> True | BatchFailure error details \<Rightarrow> False)"

text \<open>
  The handler awaits \<^verbatim>\<open>Promise.all\<close> over the documents; a rejection leaves the
  handler (the server's error handler answers 500), which is \<^const>\<open>Inl\<close>.
\<close>

definition transcribeBatchRoute ::
  "'raw Env \<Rightarrow> 'raw list \<Rightarrow> TranscriptionOptions \<Rightarrow> string + BatchReply" where
  "transcribeBatchRoute env vcons options =
     (case promise_all
             (map (\<lambda>vcon. map_sum id batch_item (transcribeVcon env vcon (Some options))) vcons)
      of
        Inl err \<Rightarrow> Inl err
      | Inr results \<Rightarrow>
          (let succeeded = length (filter item_success results);
               failed = length results - succeeded
           in Inr \<lparr>br_results = results,
                   br_summary =
                     \<lparr>bs_total = length results, bs_succeeded = succeeded, bs_failed = failed,
                      bs_provider = option_or (to_provider options) nvidia\<rparr>\<rparr>))"

section \<open>Translation of backend responses\<close>

subsection \<open>\<^verbatim>\<open>NvidiaAsrProvider.transformResponse\<close> (\<^verbatim>\<open>providers/nvidia.ts\<close>)\<close>

record NvidiaWord =
  nw_word :: string
  nw_start_time :: real
  nw_end_time :: real
  nw_confidence :: real

record NvidiaSegment =
  ns_text :: string
  ns_start_time :: real
  ns_end_time :: real
  ns_confidence :: real
  ns_speaker :: "string option"
  ns_words :: "NvidiaWord list option"

record NvidiaTranscribeResponse =
  nr_text :: string
  nr_language :: string
  nr_duration :: real
  nr_segments :: "NvidiaSegment list option"
  nr_words :: "NvidiaWord list option"
  nr_confidence :: "real option"

definition nvidia_word :: "NvidiaWord \<Rightarrow> AsrWord" where
  "nvidia_word w =
     \<lparr>aw_word = nw_word w, aw_start = nw_start_time w, aw_end = nw_end_time w,
      aw_confidence = nw_confidence w\<rparr>"

definition nvidia_segment :: "NvidiaSegment \<Rightarrow> AsrSegment" where
  "nvidia_segment seg =
     \<lparr>as_text = ns_text seg, as_start = ns_start_time seg, as_end = ns_end_time seg,
      as_confidence = ns_confidence seg, as_speaker = ns_speaker seg,
      as_words = map_option (map nvidia_word) (ns_words seg)\<rparr>"

text \<open>
  The older client \<^verbatim>\<open>services/nvidia-asr.ts\<close> derives the confidence with the same
  statements.
  \<^verbatim>\<open>let confidence = response.confidence ?? 0;
  if (!confidence && response.segments?.length) { ... }\<close>:
  a confidence of \<open>0\<close> is falsy, and so is the length of an absent or empty array.
\<close>

definition nvidia_confidence :: "NvidiaTranscribeResponse \<Rightarrow> real" where
  "nvidia_confidence response =
     (let confidence = option_or (nr_confidence response) 0
      in if confidence = 0 \<and> length (or_empty (nr_segments response)) \<noteq> 0 then
           (let totalConf = foldl (\<lambda>sum s. sum + ns_confidence s) 0
                              (or_empty (nr_segments response))
            in totalConf / real (length (or_empty (nr_segments response))))
         else confidence)"

definition nvidia_transformResponse ::
  "string \<Rightarrow> NvidiaTranscribeResponse \<Rightarrow> real \<Rightarrow> AsrTranscribeResult" where
  "nvidia_transformResponse defaultModel response processingTime =
     \<lparr>ar_text = nr_text response, ar_language = nr_language response,
      ar_duration = nr_duration response, ar_confidence = nvidia_confidence response,
      ar_segments = map nvidia_segment (or_empty (nr_segments response)),
      ar_words = map_option (map nvidia_word) (nr_words response),
      ar_processingTime = processingTime, ar_provider = nvidia,
      ar_model = Some defaultModel\<rparr>"

subsection \<open>\<^verbatim>\<open>GroqAsrProvider.transformResponse\<close> (\<^verbatim>\<open>providers/groq.ts\<close>)\<close>

text \<open>
  Of a Groq segment the translation reads the times, the text and \<^verbatim>\<open>avg_logprob\<close>;
  the record keeps these, the id and \<^verbatim>\<open>no_speech_prob\<close>.
\<close>

record GroqWord =
  gw_word :: string
  gw_start :: real
  gw_end :: real

record GroqSegment =
  gs_id :: nat
  gs_start :: real
  gs_end :: real
  gs_text :: string
  gs_avg_logprob :: real
  gs_no_speech_prob :: real

record GroqVerboseResponse =
  gr_task :: string
  gr_language :: string
  gr_duration :: real
  gr_text :: string
  gr_words :: "GroqWord list option"
  gr_segments :: "GroqSegment list option"

definition js_trim :: "string \<Rightarrow> string" where
  "js_trim s = rev (dropWhile is_js_whitespace (rev (dropWhile is_js_whitespace s)))"

definition groq_word :: "GroqWord \<Rightarrow> AsrWord" where
  "groq_word w =
     \<lparr>aw_word = gw_word w, aw_start = gw_start w, aw_end = gw_end w, aw_confidence = 0.95\<rparr>"

definition groq_segment :: "AsrWord list option \<Rightarrow> GroqSegment \<Rightarrow> AsrSegment" where
  "groq_segment words seg =
     (let segmentWords =
            map_option (filter (\<lambda>w. aw_start w \<ge> gs_start seg \<and> aw_end w \<le> gs_end seg)) words;
          confidence = exp (gs_avg_logprob seg)
      in \<lparr>as_text = js_trim (gs_text seg), as_start = gs_start seg, as_end = gs_end seg,
          as_confidence = min confidence 1, as_speaker = None, as_words = segmentWords\<rparr>)"

definition groq_transformResponse ::
  "string \<Rightarrow> GroqVerboseResponse \<Rightarrow> real \<Rightarrow> AsrTranscribeResult" where
  "groq_transformResponse model response processingTime =
     (let words = map_option (map groq_word) (gr_words response);
          segments = map (groq_segment words) (or_empty (gr_segments response));
          confidence =
            (if length segments > 0
             then foldl (\<lambda>sum s. sum + as_confidence s) 0 segments / real (length segments)
             else 0.95)
      in \<lparr>ar_text = js_trim (gr_text response), ar_language = gr_language response,
          ar_duration = gr_duration response, ar_confidence = confidence,
          ar_segments = segments, ar_words = words, ar_processingTime = processingTime,
          ar_provider = groq, ar_model = Some model\<rparr>)"

subsection \<open>\<^verbatim>\<open>OpenAIAsrProvider.transformResponse\<close> (\<^verbatim>\<open>providers/openai.ts\<close>)\<close>

text \<open>
  As for Groq, the record of a segment keeps the properties that the translation reads,
  the id and \<^verbatim>\<open>no_speech_prob\<close>.
\<close>

record OpenAIWord =
  ow_word :: string
  ow_start :: real
  ow_end :: real

record OpenAISegment =
  osg_id :: nat
  osg_start :: real
  osg_end :: real
  osg_text :: string
  osg_avg_logprob :: real
  osg_no_speech_prob :: real

record OpenAIVerboseResponse =
  orsp_task :: string
  orsp_language :: string
  orsp_duration :: real
  orsp_text :: string
  orsp_words :: "OpenAIWord list option"
  orsp_segments :: "OpenAISegment list option"

definition openai_word :: "OpenAIWord \<Rightarrow> AsrWord" where
  "openai_word w =
     \<lparr>aw_word = ow_word w, aw_start = ow_start w, aw_end = ow_end w, aw_confidence = 0.95\<rparr>"

definition openai_segment :: "AsrWord list option \<Rightarrow> OpenAISegment \<Rightarrow> AsrSegment" where
  "openai_segment words seg =
     (let segmentWords =
            map_option (filter (\<lambda>w. aw_start w \<ge> osg_start seg \<and> aw_end w \<le> osg_end seg))
              words;
          confidence = exp (osg_avg_logprob seg)
      in \<lparr>as_text = js_trim (osg_text seg), as_start = osg_start seg, as_end = osg_end seg,
          as_confidence = min confidence 1, as_speaker = None, as_words = segmentWords\<rparr>)"

definition openai_transformResponse ::
  "string \<Rightarrow> OpenAIVerboseResponse \<Rightarrow> real \<Rightarrow> AsrTranscribeResult" where
  "openai_transformResponse model response processingTime =
     (let words = map_option (map openai_word) (orsp_words response);
          segments = map (openai_segment words) (or_empty (orsp_segments response));
          confidence =
            (if length segments > 0
             then foldl (\<lambda>sum s. sum + as_confidence s) 0 segments / real (length segments)
             else 0.95)
      in \<lparr>ar_text = js_trim (orsp_text response), ar_language = orsp_language response,
          ar_duration = orsp_duration response, ar_confidence = confidence,
          ar_segments = segments, ar_words = words, ar_processingTime = processingTime,
          ar_provider = openai, ar_model = Some model\<rparr>)"

subsection \<open>\<^verbatim>\<open>transformResponse\<close> of the two Whisper servers
  (\<^verbatim>\<open>providers/local-whisper.ts\<close>, \<^verbatim>\<open>providers/mlx-whisper.ts\<close>)\<close>

text \<open>
  The two files declare the same response interfaces, in which \<^verbatim>\<open>avg_logprob\<close> is
  optional, and the two translations differ in the provider name only.
\<close>

record WhisperWord =
  whw_word :: string
  whw_start :: real
  whw_end :: real

record WhisperSegment =
  whs_id :: nat
  whs_start :: real
  whs_end :: real
  whs_text :: string
  whs_avg_logprob :: "real option"
  whs_no_speech_prob :: "real option"

record WhisperVerboseResponse =
  whr_task :: "string option"
  whr_language :: string
  whr_duration :: real
  whr_text :: string
  whr_words :: "WhisperWord list option"
  whr_segments :: "WhisperSegment list option"

definition whisper_word :: "WhisperWord \<Rightarrow> AsrWord" where
  "whisper_word w =
     \<lparr>aw_word = whw_word w, aw_start = whw_start w, aw_end = whw_end w,
      aw_confidence = 0.95\<rparr>"

definition whisper_segment :: "AsrWord list option \<Rightarrow> WhisperSegment \<Rightarrow> AsrSegment" where
  "whisper_segment words seg =
     (let segmentWords =
            map_option (filter (\<lambda>w. aw_start w \<ge> whs_start seg \<and> aw_end w \<le> whs_end seg))
              words;
          confidence =
            (case whs_avg_logprob seg of None \<Rightarrow> 0.95 | Some lp \<Rightarrow> min (exp lp) 1)
      in \<lparr>as_text = js_trim (whs_text seg), as_start = whs_start seg, as_end = whs_end seg,
          as_confidence = confidence, as_speaker = None, as_words = segmentWords\<rparr>)"

definition local_whisper_transformResponse ::
  "string \<Rightarrow> WhisperVerboseResponse \<Rightarrow> real \<Rightarrow> AsrTranscribeResult" where
  "local_whisper_transformResponse model response processingTime =
     (let words = map_option (map whisper_word) (whr_words response);
          segments = map (whisper_segment words) (or_empty (whr_segments response));
          confidence =
            (if length segments > 0
             then foldl (\<lambda>sum s. sum + as_confidence s) 0 segments / real (length segments)
             else 0.95)
      in \<lparr>ar_text = js_trim (whr_text response), ar_language = whr_language response,
          ar_duration = whr_duration response, ar_confidence = confidence,
          ar_segments = segments, ar_words = words, ar_processingTime = processingTime,
          ar_provider = local_whisper, ar_model = Some model\<rparr>)"

definition mlx_whisper_transformResponse ::
  "string \<Rightarrow> WhisperVerboseResponse \<Rightarrow> real \<Rightarrow> AsrTranscribeResult" where
  "mlx_whisper_transformResponse model response processingTime =
     (let words = map_option (map whisper_word) (whr_words response);
          segments = map (whisper_segment words) (or_empty (whr_segments response));
          confidence =
            (if length segments > 0
             then foldl (\<lambda>sum s. sum + as_confidence s) 0 segments / real (length segments)
             else 0.95)
      in \<lparr>ar_text = js_trim (whr_text response), ar_language = whr_language response,
          ar_duration = whr_duration response, ar_confidence = confidence,
          ar_segments = segments, ar_words = words, ar_processingTime = processingTime,
          ar_provider = mlx_whisper, ar_model = Some model\<rparr>)"

subsection \<open>\<^verbatim>\<open>DeepgramAsrProvider.transformResponse\<close> (\<^verbatim>\<open>providers/deepgram.ts\<close>)\<close>

text \<open>
  Of the response metadata the translation reads the duration. A speaker is a number
  and \<^verbatim>\<open>String(speaker)\<close> its decimal text. The top-level words of the result also
  carry a \<^verbatim>\<open>speaker\<close> property, which the \<^verbatim>\<open>AsrWord\<close> interface does not declare and
  the enrichment does not read; it is not kept.
\<close>

record DeepgramWord =
  dgw_word :: string
  dgw_start :: real
  dgw_end :: real
  dgw_confidence :: real
  dgw_punctuated_word :: "string option"
  dgw_speaker :: "int option"

record DeepgramSentence =
  dgs_text :: string
  dgs_start :: real
  dgs_end :: real

record DeepgramParagraph =
  dgp_sentences :: "DeepgramSentence list"
  dgp_speaker :: "int option"
  dgp_num_words :: nat
  dgp_start :: real
  dgp_end :: real

record DeepgramParagraphs =
  dgps_transcript :: string
  dgps_paragraphs :: "DeepgramParagraph list"

record DeepgramAlternative =
  dga_transcript :: string
  dga_confidence :: real
  dga_words :: "DeepgramWord list"
  dga_paragraphs :: "DeepgramParagraphs option"

record DeepgramChannel =
  dgc_alternatives :: "DeepgramAlternative list"

record DeepgramUtterance =
  dgu_start :: real
  dgu_end :: real
  dgu_confidence :: real
  dgu_channel :: nat
  dgu_transcript :: string
  dgu_words :: "DeepgramWord list"
  dgu_speaker :: "int option"
  dgu_id :: string

record DeepgramResponse =
  dgr_duration :: real
  dgr_channels :: "DeepgramChannel list"
  dgr_utterances :: "DeepgramUtterance list option"

text \<open>
  \<^verbatim>\<open>response.results.channels[0]\<close> and \<^verbatim>\<open>channel?.alternatives[0]\<close>: reading position
  \<open>0\<close> of an empty array gives \<^verbatim>\<open>undefined\<close>.
\<close>

definition deepgram_first_alternative :: "DeepgramResponse \<Rightarrow> DeepgramAlternative option" where
  "deepgram_first_alternative response =
     (case dgr_channels response of
        [] \<Rightarrow> None
      | channel # _ \<Rightarrow>
          (case dgc_alternatives channel of [] \<Rightarrow> None | alternative # _ \<Rightarrow> Some alternative))"

definition deepgram_word :: "DeepgramWord \<Rightarrow> AsrWord" where
  "deepgram_word w =
     \<lparr>aw_word = option_or (dgw_punctuated_word w) (dgw_word w), aw_start = dgw_start w,
      aw_end = dgw_end w, aw_confidence = dgw_confidence w\<rparr>"

definition deepgram_speaker :: "int option \<Rightarrow> string option" where
  "deepgram_speaker sp = map_option (\<lambda>i. String_of (IntVal i)) sp"

definition deepgram_utterance_segment :: "DeepgramUtterance \<Rightarrow> AsrSegment" where
  "deepgram_utterance_segment utt =
     \<lparr>as_text = dgu_transcript utt, as_start = dgu_start utt, as_end = dgu_end utt,
      as_confidence = dgu_confidence utt, as_speaker = deepgram_speaker (dgu_speaker utt),
      as_words = Some (map deepgram_word (dgu_words utt))\<rparr>"

definition deepgram_sentence_segment ::
  "DeepgramAlternative \<Rightarrow> AsrWord list \<Rightarrow> DeepgramParagraph \<Rightarrow> DeepgramSentence \<Rightarrow> AsrSegment"
where
  "deepgram_sentence_segment alternative words para sent =
     (let sentWords = filter (\<lambda>w. aw_start w \<ge> dgs_start sent \<and> aw_end w \<le> dgs_end sent) words;
          avgConfidence =
            (if length sentWords > 0
             then foldl (\<lambda>sum w. sum + aw_confidence w) 0 sentWords / real (length sentWords)
             else dga_confidence alternative)
      in \<lparr>as_text = dgs_text sent, as_start = dgs_start sent, as_end = dgs_end sent,
          as_confidence = avgConfidence, as_speaker = deepgram_speaker (dgp_speaker para),
          as_words = Some sentWords\<rparr>)"

definition deepgram_transformResponse ::
  "string \<Rightarrow> DeepgramResponse \<Rightarrow> real \<Rightarrow> AsrTranscribeResult" where
  "deepgram_transformResponse model response processingTime =
     (case deepgram_first_alternative response of
        None \<Rightarrow>
          \<lparr>ar_text = '''', ar_language = ''unknown'', ar_duration = dgr_duration response,
           ar_confidence = 0, ar_segments = [], ar_words = None,
           ar_processingTime = processingTime, ar_provider = deepgram,
           ar_model = Some model\<rparr>
      | Some alternative \<Rightarrow>
          (let words = map deepgram_word (dga_words alternative);
               segments =
                 (if length (or_empty (dgr_utterances response)) \<noteq> 0
                  then map deepgram_utterance_segment (or_empty (dgr_utterances response))
                  else if length (case dga_paragraphs alternative of
                                    None \<Rightarrow> [] | Some ps \<Rightarrow> dgps_paragraphs ps) \<noteq> 0
                  then concat
                         (map (\<lambda>para. map (deepgram_sentence_segment alternative words para)
                                         (dgp_sentences para))
                            (case dga_paragraphs alternative of
                               None \<Rightarrow> [] | Some ps \<Rightarrow> dgps_paragraphs ps))
                  else [])
           in \<lparr>ar_text = dga_transcript alternative, ar_language = ''en'',
               ar_duration = dgr_duration response,
               ar_confidence = dga_confidence alternative, ar_segments = segments,
               ar_words = Some words, ar_processingTime = processingTime,
               ar_provider = deepgram, ar_model = Some model\<rparr>))"

section \<open>The document schema (\<^verbatim>\<open>schemas/vcon.schema.ts\<close>)\<close>

text \<open>
  \<^verbatim>\<open>VconSchema.safeParse\<close> is a parameter of the pipeline (\<^const>\<open>env_safeParse\<close>), so
  every statement about the pipeline holds for any validator. The schema is modelled
  here on request bodies whose properties have the types of the \<^verbatim>\<open>Vcon\<close> interface
  and whose four required top-level properties may be missing; it supplies the concrete
  documents of the examples. The string formats of the library (uuid, datetime, url,
  email) are parameters; the messages of the library's own checks are its defaults.
  A refinement runs unless a required property is missing below it.
\<close>

record RawVcon =
  rv_vcon :: "string option"
  rv_uuid :: "string option"
  rv_created_at :: "string option"
  rv_updated_at :: "string option"
  rv_subject :: "string option"
  rv_parties :: "Party list option"
  rv_dialog :: "Dialog list option"
  rv_analysis :: "Analysis list option"
  rv_attachments :: "Attachment list option"
  rv_group :: "VconRef list option"
  rv_redacted :: "VconRef option"
  rv_appended :: "VconRef option"

record ZodFormats =
  zf_uuid :: "string \<Rightarrow> bool"
  zf_datetime :: "string \<Rightarrow> bool"
  zf_url :: "string \<Rightarrow> bool"
  zf_email :: "string \<Rightarrow> bool"

text \<open>The regular expression \<^verbatim>\<open>/^\d+\.\d+\.\d+$/\<close>.\<close>

definition version_regex_test :: "string \<Rightarrow> bool" where
  "version_regex_test s =
     (let a = takeWhile is_decimal_digit s; r1 = dropWhile is_decimal_digit s
      in a \<noteq> [] \<and>
         (case r1 of
            [] \<Rightarrow> False
          | c1 # s2 \<Rightarrow>
              c1 = CHR ''.'' \<and>
              (let b = takeWhile is_decimal_digit s2; r2 = dropWhile is_decimal_digit s2
               in b \<noteq> [] \<and>
                  (case r2 of
                     [] \<Rightarrow> False
                   | c2 # s3 \<Rightarrow> c2 = CHR ''.'' \<and> s3 \<noteq> [] \<and> list_all is_decimal_digit s3))))"

definition issue :: "PathElem list \<Rightarrow> string \<Rightarrow> ZodIssue" where
  "issue path message = \<lparr>zi_path = path, zi_message = message\<rparr>"

definition required_string ::
  "string \<Rightarrow> string option \<Rightarrow> (string \<Rightarrow> bool) \<Rightarrow> string \<Rightarrow> ZodIssue list" where
  "required_string key value ok message =
     (case value of
        None \<Rightarrow> [issue [Key key] ''Required'']
      | Some s \<Rightarrow> if ok s then [] else [issue [Key key] message])"

definition optional_string ::
  "PathElem list \<Rightarrow> string option \<Rightarrow> (string \<Rightarrow> bool) \<Rightarrow> string \<Rightarrow> ZodIssue list" where
  "optional_string path value ok message =
     (case value of None \<Rightarrow> [] | Some s \<Rightarrow> if ok s then [] else [issue path message])"

definition each_entry :: "string \<Rightarrow> (PathElem list \<Rightarrow> 'a \<Rightarrow> ZodIssue list) \<Rightarrow> 'a list option \<Rightarrow> ZodIssue list" where
  "each_entry key check entries =
     concat (map (\<lambda>(x, i). check [Key key, Index i] x)
               (zip (or_empty entries) [0..<length (or_empty entries)]))"

definition PartySchema :: "ZodFormats \<Rightarrow> PathElem list \<Rightarrow> Party \<Rightarrow> ZodIssue list" where
  "PartySchema zf path p =
     optional_string (path @ [Key ''mailto'']) (p_mailto p) (zf_email zf) ''Invalid email'' @
     optional_string (path @ [Key ''uuid'']) (p_uuid p) (zf_uuid zf) ''Invalid uuid''"

definition DialogSchema :: "ZodFormats \<Rightarrow> PathElem list \<Rightarrow> Dialog \<Rightarrow> ZodIssue list" where
  "DialogSchema zf path d =
     optional_string (path @ [Key ''start'']) (Some (d_start d)) (zf_datetime zf)
       ''Invalid datetime'' @
     optional_string (path @ [Key ''url'']) (d_url d) (zf_url zf) ''Invalid url'' @
     (if (d_type d = Recording \<or> d_type d = Text) \<and> truthy (d_body d) \<and>
         \<not> truthy (d_mediatype d)
      then [issue path ''mediatype is required when body is present for recording/text'']
      else [])"

definition AnalysisSchema :: "ZodFormats \<Rightarrow> PathElem list \<Rightarrow> Analysis \<Rightarrow> ZodIssue list" where
  "AnalysisSchema zf path a =
     (if length (an_vendor a) < 1
      then [issue (path @ [Key ''vendor'']) ''String must contain at least 1 character(s)'']
      else []) @
     optional_string (path @ [Key ''url'']) (an_url a) (zf_url zf) ''Invalid url''"

definition AttachmentSchema :: "ZodFormats \<Rightarrow> PathElem list \<Rightarrow> Attachment \<Rightarrow> ZodIssue list" where
  "AttachmentSchema zf path a =
     optional_string (path @ [Key ''start'']) (at_start a) (zf_datetime zf) ''Invalid datetime'' @
     (if length (at_mediatype a) < 1
      then [issue (path @ [Key ''mediatype'']) ''String must contain at least 1 character(s)'']
      else []) @
     optional_string (path @ [Key ''url'']) (at_url a) (zf_url zf) ''Invalid url''"

definition RefSchema :: "ZodFormats \<Rightarrow> PathElem list \<Rightarrow> VconRef \<Rightarrow> ZodIssue list" where
  "RefSchema zf path r =
     optional_string (path @ [Key ''uuid'']) (Some (ref_uuid r)) (zf_uuid zf) ''Invalid uuid'' @
     optional_string (path @ [Key ''url'']) (ref_url r) (zf_url zf) ''Invalid url''"

definition optional_ref :: "ZodFormats \<Rightarrow> string \<Rightarrow> VconRef option \<Rightarrow> ZodIssue list" where
  "optional_ref zf key r = (case r of None \<Rightarrow> [] | Some x \<Rightarrow> RefSchema zf [Key key] x)"

definition exclusive_count :: "RawVcon \<Rightarrow> nat" where
  "exclusive_count raw =
     length (filter id [rv_group raw \<noteq> None, rv_redacted raw \<noteq> None, rv_appended raw \<noteq> None])"

definition VconSchema_issues :: "ZodFormats \<Rightarrow> RawVcon \<Rightarrow> ZodIssue list" where
  "VconSchema_issues zf raw =
     required_string ''vcon'' (rv_vcon raw) version_regex_test ''Invalid version format'' @
     required_string ''uuid'' (rv_uuid raw) (zf_uuid zf) ''Invalid uuid'' @
     required_string ''created_at'' (rv_created_at raw) (zf_datetime zf) ''Invalid datetime'' @
     optional_string [Key ''updated_at''] (rv_updated_at raw) (zf_datetime zf)
       ''Invalid datetime'' @
     (case rv_parties raw of
        None \<Rightarrow> [issue [Key ''parties''] ''Required'']
      | Some ps \<Rightarrow>
          (if length ps < 1
           then [issue [Key ''parties''] ''Array must contain at least 1 element(s)'']
           else []) @
          each_entry ''parties'' (PartySchema zf) (Some ps)) @
     each_entry ''dialog'' (DialogSchema zf) (rv_dialog raw) @
     each_entry ''analysis'' (AnalysisSchema zf) (rv_analysis raw) @
     each_entry ''attachments'' (AttachmentSchema zf) (rv_attachments raw) @
     each_entry ''group'' (RefSchema zf) (rv_group raw) @
     optional_ref zf ''redacted'' (rv_redacted raw) @
     optional_ref zf ''appended'' (rv_appended raw) @
     (if rv_vcon raw \<noteq> None \<and> rv_uuid raw \<noteq> None \<and> rv_created_at raw \<noteq> None \<and>
         rv_parties raw \<noteq> None \<and> \<not> exclusive_count raw \<le> 1
      then [issue [] ''group, redacted, and appended are mutually exclusive'']
      else [])"

definition VconSchema_safeParse :: "ZodFormats \<Rightarrow> RawVcon \<Rightarrow> ZodIssue list + Vcon" where
  "VconSchema_safeParse zf raw =
     (if VconSchema_issues zf raw \<noteq> [] then Inl (VconSchema_issues zf raw)
      else
        Inr \<lparr>v_vcon = the (rv_vcon raw), v_uuid = the (rv_uuid raw),
             v_created_at = the (rv_created_at raw), v_updated_at = rv_updated_at raw,
             v_subject = rv_subject raw, v_parties = the (rv_parties raw),
             v_dialog = rv_dialog raw, v_analysis = rv_analysis raw,
             v_attachments = rv_attachments raw, v_group = rv_group raw,
             v_redacted = rv_redacted raw, v_appended = rv_appended raw\<rparr>)"

section \<open>Notions used in the statements\<close>

text \<open>The words nested in the segments, in segment order then in-segment order.\<close>

definition nested_words :: "AsrSegment list \<Rightarrow> (AsrSegment \<times> AsrWord) list" where
  "nested_words segs =
     concat (map (\<lambda>seg. case as_words seg of None \<Rightarrow> [] | Some ws \<Rightarrow> map (Pair seg) ws) segs)"

definition flatten_words :: "AsrSegment list \<Rightarrow> AsrWord list" where
  "flatten_words segs =
     concat (map (\<lambda>seg. case as_words seg of None \<Rightarrow> [] | Some ws \<Rightarrow> ws) segs)"

text \<open>The input words that enrichment processes.\<close>

definition source_words :: "AsrTranscribeResult \<Rightarrow> AsrWord list" where
  "source_words t =
     (case ar_words t of Some ws \<Rightarrow> ws | None \<Rightarrow> flatten_words (ar_segments t))"

text \<open>The word collection and the speaker map of a record; an omitted field is empty.\<close>

definition emitted_words :: "WtfTranscription \<Rightarrow> WtfWord list" where
  "emitted_words wtf = (case wtf_words wtf of None \<Rightarrow> [] | Some ws \<Rightarrow> ws)"

definition speaker_map :: "WtfTranscription \<Rightarrow> (string, WtfSpeaker) js_map" where
  "speaker_map wtf = (case wtf_speakers wtf of None \<Rightarrow> [] | Some m \<Rightarrow> m)"

text \<open>The eleven punctuation tokens.\<close>

definition punctuation_tokens :: "string set" where
  "punctuation_tokens =
     {''.'', '','', ''!'', ''?'', '';'', '':'', [CHR 0x27], [CHR 0x22], ''('', '')'', ''-''}"

text \<open>Closed-interval containment of a word in a segment.\<close>

definition word_within :: "WtfWord \<Rightarrow> AsrSegment \<Rightarrow> bool" where
  "word_within w seg \<longleftrightarrow> as_start seg \<le> ww_start w \<and> ww_end w \<le> as_end seg"


text \<open>\<^verbatim>\<open>s.includes(sub)\<close>.\<close>

definition string_includes :: "string \<Rightarrow> string \<Rightarrow> bool" where
  "string_includes s sub = list_ex (\<lambda>k. take (length sub) (drop k s) = sub) [0..<Suc (length s)]"

text \<open>The provider that a call selects.\<close>

definition selected_provider :: "'raw Env \<Rightarrow> TranscriptionOptions option \<Rightarrow> AsrProviderClient" where
  "selected_provider env options =
     env_getProvider env
       (option_or (Option.bind options to_provider) (cfg_asrProvider (env_config env)))"

text \<open>The analysis entries that a call appended to the \<open>n\<close> entries of its input.\<close>

definition appended_entries :: "nat \<Rightarrow> NormalizedVcon \<Rightarrow> Analysis list" where
  "appended_entries n out = drop n (nv_analysis out)"

section \<open>Example inputs\<close>

text \<open>
  A result in the shape of the test fixtures: nested words only, a comma and an
  apostrophe word, two low-confidence words, a word that straddles the end of its
  segment, and two speakers.
\<close>

definition ex_now :: string where
  "ex_now = ''2024-01-15T10:30:00.000Z''"

definition ex_words :: "AsrWord list" where
  "ex_words =
     [\<lparr>aw_word = ''Hello'', aw_start = 0, aw_end = 0.3, aw_confidence = 0.98\<rparr>,
      \<lparr>aw_word = '','', aw_start = 0.3, aw_end = 0.35, aw_confidence = 1\<rparr>,
      \<lparr>aw_word = ''don't'', aw_start = 0.4, aw_end = 0.6, aw_confidence = 0.65\<rparr>,
      \<lparr>aw_word = ''go'', aw_start = 1.4, aw_end = 1.6, aw_confidence = 0.5\<rparr>]"

definition ex_segments :: "AsrSegment list" where
  "ex_segments =
     [\<lparr>as_text = ''Hello, don't go'', as_start = 0, as_end = 1.5, as_confidence = 0.95,
       as_speaker = Some ''0'', as_words = Some ex_words\<rparr>,
      \<lparr>as_text = ''Hi there.'', as_start = 2, as_end = 4, as_confidence = 0.89,
       as_speaker = Some ''1'', as_words = None\<rparr>]"

definition ex_result :: AsrTranscribeResult where
  "ex_result =
     \<lparr>ar_text = ''Hello, don't go Hi there.'', ar_language = ''en-US'', ar_duration = 4,
      ar_confidence = 0.92, ar_segments = ex_segments, ar_words = None,
      ar_processingTime = 400, ar_provider = nvidia,
      ar_model = Some ''parakeet-tdt-1.1b''\<rparr>"

definition ex_input :: EnrichmentInput where
  "ex_input =
     \<lparr>ei_dialogIndex = 0, ei_transcription = ex_result, ei_provider = nvidia,
      ei_model = Some ''parakeet-tdt-1.1b'', ei_audioDuration = Some 4\<rparr>"







subsection \<open>Example documents, providers and environment\<close>

text \<open>
  Stand-ins for the string formats of the schema library: a template is matched
  character by character, \<^verbatim>\<open>h\<close> standing for a hexadecimal digit and \<^verbatim>\<open>d\<close> for a
  decimal digit.
\<close>

definition is_hex_digit :: "char \<Rightarrow> bool" where
  "is_hex_digit c = (is_decimal_digit c \<or> c \<in> set ''abcdefABCDEF'')"

definition matches_template :: "string \<Rightarrow> string \<Rightarrow> bool" where
  "matches_template template s =
     list_all2 (\<lambda>t c. if t = CHR ''h'' then is_hex_digit c
                       else if t = CHR ''d'' then is_decimal_digit c else c = t)
       template s"

definition ex_formats :: ZodFormats where
  "ex_formats =
     \<lparr>zf_uuid = matches_template ''hhhhhhhh-hhhh-hhhh-hhhh-hhhhhhhhhhhh'',
      zf_datetime = matches_template ''dddd-dd-ddTdd:dd:dd.dddZ'',
      zf_url = (\<lambda>s. take 4 s = ''http''),
      zf_email = (\<lambda>s. CHR ''@'' \<in> set s)\<rparr>"

definition ex_party :: Party where
  "ex_party =
     \<lparr>p_tel = None, p_mailto = None, p_name = Some ''Valid'', p_uuid = None, p_role = None,
      p_other = []\<rparr>"

text \<open>The recording of the integration tests: inline body, \<^verbatim>\<open>audio/wav\<close>.\<close>

definition ex_audio_dialog :: Dialog where
  "ex_audio_dialog =
     \<lparr>d_type = Recording, d_start = ''2024-01-15T10:30:00.000Z'', d_duration = None,
      d_parties = ManyIndices [0], d_mediatype = Some ''audio/wav'', d_filename = None,
      d_body = Some ''dGVzdA=='', d_encoding = Some Base64url, d_url = None, d_other = []\<rparr>"

text \<open>A recording with a recognised media type and neither a body nor a URL.\<close>

definition cx_empty_dialog :: Dialog where
  "cx_empty_dialog = ex_audio_dialog\<lparr>d_body := None, d_encoding := None\<rparr>"

definition ex_summary :: Analysis where
  "ex_summary =
     \<lparr>an_type = ''summary'', an_dialog = None, an_mediatype = None, an_filename = None,
      an_vendor = ''other'', an_product = None, an_schema = None,
      an_body = Some (BodyString ''Existing summary''), an_encoding = None, an_url = None,
      an_other = []\<rparr>"

definition ex_valid_raw :: RawVcon where
  "ex_valid_raw =
     \<lparr>rv_vcon = Some ''0.0.2'', rv_uuid = Some ''019371a4-1234-7000-8000-000000000001'',
      rv_created_at = Some ''2024-01-15T10:30:00.000Z'', rv_updated_at = None,
      rv_subject = None, rv_parties = Some [ex_party], rv_dialog = Some [ex_audio_dialog],
      rv_analysis = Some [ex_summary], rv_attachments = None, rv_group = None,
      rv_redacted = None, rv_appended = None\<rparr>"

definition ex_valid_vcon :: Vcon where
  "ex_valid_vcon =
     \<lparr>v_vcon = ''0.0.2'', v_uuid = ''019371a4-1234-7000-8000-000000000001'',
      v_created_at = ''2024-01-15T10:30:00.000Z'', v_updated_at = None, v_subject = None,
      v_parties = [ex_party], v_dialog = Some [ex_audio_dialog],
      v_analysis = Some [ex_summary], v_attachments = None, v_group = None,
      v_redacted = None, v_appended = None\<rparr>"

definition ex_missing_uuid_raw :: RawVcon where
  "ex_missing_uuid_raw = ex_valid_raw\<lparr>rv_uuid := None\<rparr>"

definition ex_no_dialog_raw :: RawVcon where
  "ex_no_dialog_raw = ex_valid_raw\<lparr>rv_dialog := None\<rparr>"

definition cx_unextractable_raw :: RawVcon where
  "cx_unextractable_raw = ex_valid_raw\<lparr>rv_dialog := Some [cx_empty_dialog]\<rparr>"

definition ex_provider :: AsrProviderClient where
  "ex_provider =
     \<lparr>pc_provider = nvidia, pc_isConfigured = True, pc_transcribe = (\<lambda>req. Inr ex_result)\<rparr>"

definition cx_unconfigured_provider :: AsrProviderClient where
  "cx_unconfigured_provider =
     \<lparr>pc_provider = groq, pc_isConfigured = False,
      pc_transcribe = (\<lambda>req. Inl ''Groq API key not configured'')\<rparr>"

definition cx_failing_provider :: AsrProviderClient where
  "cx_failing_provider =
     \<lparr>pc_provider = nvidia, pc_isConfigured = True,
      pc_transcribe = (\<lambda>req. Inl ''NVIDIA NIM returned 500: error'')\<rparr>"

text \<open>
  An environment with the default provider \<^verbatim>\<open>nvidia\<close> answering every request and the
  provider \<^verbatim>\<open>groq\<close> without a key; the decoders return the code units of the text.
\<close>

definition ex_env :: "RawVcon Env" where
  "ex_env =
     \<lparr>env_config = \<lparr>cfg_asrProvider = nvidia, cfg_maxAudioSizeMb = 100\<rparr>,
      env_safeParse = VconSchema_safeParse ex_formats,
      env_getProvider = (\<lambda>p. if p = groq then cx_unconfigured_provider else ex_provider),
      env_request = (\<lambda>url. Inl ''fetch failed''),
      env_base64 = map of_char, env_binary = map of_char,
      env_number_text = (\<lambda>x. ''100''), env_clock = (\<lambda>k. ex_now), env_elapsed = 500\<rparr>"

definition cx_env :: "RawVcon Env" where
  "cx_env = ex_env\<lparr>env_getProvider := (\<lambda>p. cx_failing_provider)\<rparr>"

definition ex_options :: TranscriptionOptions where
  "ex_options =
     \<lparr>to_provider = None, to_model = None, to_language = None, to_wordTimestamps = None,
      to_speakerDiarization = None\<rparr>"

definition cx_groq_options :: TranscriptionOptions where
  "cx_groq_options = ex_options\<lparr>to_provider := Some groq\<rparr>"

text \<open>An NVIDIA response that reports the confidence \<open>0\<close> and one segment.\<close>

definition cx_nvidia_response :: NvidiaTranscribeResponse where
  "cx_nvidia_response =
     \<lparr>nr_text = ''Hello'', nr_language = ''en-US'', nr_duration = 1.5,
      nr_segments =
        Some [\<lparr>ns_text = ''Hello'', ns_start_time = 0, ns_end_time = 1.5, ns_confidence = 0.8,
               ns_speaker = None, ns_words = None\<rparr>],
      nr_words = None, nr_confidence = Some 0\<rparr>"

definition ex_nvidia_response :: NvidiaTranscribeResponse where
  "ex_nvidia_response = cx_nvidia_response\<lparr>nr_confidence := Some 0.9\<rparr>"

definition ex_groq_response :: GroqVerboseResponse where
  "ex_groq_response =
     \<lparr>gr_task = ''transcribe'', gr_language = ''en'', gr_duration = 1.5, gr_text = '' Hello '',
      gr_words = None,
      gr_segments =
        Some [\<lparr>gs_id = 0, gs_start = 0, gs_end = 1.5, gs_text = '' Hello'', gs_avg_logprob = 0,
               gs_no_speech_prob = 0\<rparr>]\<rparr>"

text \<open>The failure message for the provider \<^verbatim>\<open>groq\<close>.\<close>

definition cx_message :: string where
  "cx_message =
     ''ASR provider '' @ [CHR 0x27] @ ''groq'' @ [CHR 0x27] @
     '' is not configured. Check environment variables.''"

text \<open>Responses of the other backends.\<close>

definition ex_openai_response :: OpenAIVerboseResponse where
  "ex_openai_response =
     \<lparr>orsp_task = ''transcribe'', orsp_language = ''english'', orsp_duration = 1.5,
      orsp_text = ''Hello'', orsp_words = None,
      orsp_segments =
        Some [\<lparr>osg_id = 0, osg_start = 0, osg_end = 1.5, osg_text = '' Hello'',
               osg_avg_logprob = 0, osg_no_speech_prob = 0\<rparr>]\<rparr>"

definition ex_whisper_response :: WhisperVerboseResponse where
  "ex_whisper_response =
     \<lparr>whr_task = None, whr_language = ''en'', whr_duration = 3, whr_text = ''Hello there'',
      whr_words = None,
      whr_segments =
        Some [\<lparr>whs_id = 0, whs_start = 0, whs_end = 1.5, whs_text = '' Hello'',
               whs_avg_logprob = Some 0, whs_no_speech_prob = None\<rparr>,
              \<lparr>whs_id = 1, whs_start = 1.5, whs_end = 3, whs_text = '' there'',
               whs_avg_logprob = None, whs_no_speech_prob = None\<rparr>]\<rparr>"

definition ex_deepgram_alternative :: DeepgramAlternative where
  "ex_deepgram_alternative =
     \<lparr>dga_transcript = ''Hello'', dga_confidence = 0.97,
      dga_words =
        [\<lparr>dgw_word = ''hello'', dgw_start = 0, dgw_end = 0.5, dgw_confidence = 0.5,
          dgw_punctuated_word = Some ''Hello'', dgw_speaker = Some 0\<rparr>],
      dga_paragraphs = None\<rparr>"

definition ex_deepgram_response :: DeepgramResponse where
  "ex_deepgram_response =
     \<lparr>dgr_duration = 1.5,
      dgr_channels = [\<lparr>dgc_alternatives = [ex_deepgram_alternative]\<rparr>],
      dgr_utterances =
        Some [\<lparr>dgu_start = 0, dgu_end = 0.5, dgu_confidence = 0.5, dgu_channel = 0,
               dgu_transcript = ''Hello'', dgu_words = dga_words ex_deepgram_alternative,
               dgu_speaker = Some 0, dgu_id = ''u0''\<rparr>]\<rparr>"

definition ex_deepgram_empty_response :: DeepgramResponse where
  "ex_deepgram_empty_response = ex_deepgram_response\<lparr>dgr_channels := []\<rparr>"

section \<open>Properties of the enrichment engine\<close>

lemma flatten_words_nested: "flatten_words segs = map snd (nested_words segs)"
  by (induction segs) (auto simp: flatten_words_def nested_words_def comp_def split: option.splits)

lemma push_words_snd: "snd (push_words mk ws st) = snd st + length ws"
  by (induction ws arbitrary: st) auto

lemma push_words_fst:
  "fst (push_words mk ws st) =
     fst st @ map (\<lambda>(k, w). mk k w) (zip [snd st..<snd st + length ws] ws)"
proof (induction ws arbitrary: st)
  case Nil
  show ?case by simp
next
  case (Cons w ws)
  have "[snd st..<snd st + length (w # ws)] = snd st # [Suc (snd st)..<Suc (snd st) + length ws]"
    by (subst upt_rec) simp
  then show ?case using Cons.IH [of "(fst st @ [mk (snd st) w], Suc (snd st))"] by simp
qed

lemma push_segment_words_snd:
  "snd (push_segment_words segs st) = snd st + length (nested_words segs)"
  by (induction segs arbitrary: st)
     (auto simp: nested_words_def push_words_snd split: option.splits)

lemma zip_upt_append:
  "length xs = m \<Longrightarrow>
   zip [k..<k + (m + n)] (xs @ ys) = zip [k..<k + m] xs @ zip [k + m..<k + m + n] ys"
  using upt_add_eq_append [of k "k + m" n] by (simp add: add.assoc)

lemma push_segment_words_fst:
  "fst (push_segment_words segs st) =
     fst st @ map (\<lambda>(k, (seg, w)). nested_word seg k w)
                (zip [snd st..<snd st + length (nested_words segs)] (nested_words segs))"
proof (induction segs arbitrary: st)
  case Nil
  show ?case by (simp add: nested_words_def)
next
  case (Cons seg segs)
  show ?case
  proof (cases "as_words seg")
    case None
    then have "nested_words (seg # segs) = nested_words segs" by (simp add: nested_words_def)
    with None Cons.IH [of st] show ?thesis by simp
  next
    case (Some ws)
    let ?st1 = "push_words (nested_word seg) ws st"
    have nw: "nested_words (seg # segs) = map (Pair seg) ws @ nested_words segs"
      using Some by (simp add: nested_words_def)
    have z: "zip [snd st..<snd st + (length ws + length (nested_words segs))]
                 (map (Pair seg) ws @ nested_words segs) =
             zip [snd st..<snd st + length ws] (map (Pair seg) ws) @
             zip [snd st + length ws..<snd st + length ws + length (nested_words segs)]
                 (nested_words segs)"
      by (rule zip_upt_append) simp
    have m: "map (\<lambda>(k, (seg, w)). nested_word seg k w)
               (zip [snd st..<snd st + length ws] (map (Pair seg) ws)) =
             map (\<lambda>(k, w). nested_word seg k w) (zip [snd st..<snd st + length ws] ws)"
      by (simp add: zip_map2 comp_def case_prod_unfold)
    show ?thesis
      using Some Cons.IH [of ?st1]
      by (simp add: nw z m push_words_fst push_words_snd)
  qed
qed

lemma build_words_top:
  "ar_words t = Some ws \<Longrightarrow>
   build_words t = map (\<lambda>(k, w). top_level_word k w) (zip [0..<length ws] ws)"
  by (simp add: build_words_def push_words_fst)

lemma build_words_nested:
  "ar_words t = None \<Longrightarrow>
   build_words t =
     map (\<lambda>(k, (seg, w)). nested_word seg k w)
       (zip [0..<length (nested_words (ar_segments t))] (nested_words (ar_segments t)))"
  by (simp add: build_words_def push_segment_words_fst)

lemma emitted_words_build:
  "emitted_words (createWtfTranscription now input) = build_words (ei_transcription input)"
  by (simp add: emitted_words_def createWtfTranscription_def Let_def)

lemma map_zip_upt_fst: "length xs = n \<Longrightarrow> map (\<lambda>(k, x). k) (zip [i..<i + n] xs) = [i..<i + n]"
  using map_fst_zip [of "[i..<i + n]" xs] by (simp add: case_prod_unfold)

lemma map_zip_upt_snd: "length xs = n \<Longrightarrow> map (\<lambda>(k, x). f x) (zip [i..<i + n] xs) = map f xs"
proof -
  assume "length xs = n"
  then have "map snd (zip [i..<i + n] xs) = xs" by (simp add: map_snd_zip)
  then have "map f (map snd (zip [i..<i + n] xs)) = map f xs" by simp
  then show ?thesis by (simp add: case_prod_unfold comp_def)
qed

lemma build_words_length: "length (build_words t) = length (source_words t)"
  by (cases "ar_words t")
     (simp_all add: build_words_nested build_words_top source_words_def flatten_words_nested)

lemma build_words_ids: "map ww_id (build_words t) = [0..<length (source_words t)]"
proof (cases "ar_words t")
  case None
  have "map ww_id (build_words t) =
        map (\<lambda>(k, x). k) (zip [0..<0 + length (nested_words (ar_segments t))]
                              (nested_words (ar_segments t)))"
    by (simp add: build_words_nested [OF None] nested_word_def case_prod_unfold comp_def)
  also have "\<dots> = [0..<0 + length (nested_words (ar_segments t))]"
    by (rule map_zip_upt_fst) simp
  finally show ?thesis using None by (simp add: source_words_def flatten_words_nested)
next
  case (Some ws)
  have "map ww_id (build_words t) = map (\<lambda>(k, x). k) (zip [0..<0 + length ws] ws)"
    by (simp add: build_words_top [OF Some] top_level_word_def case_prod_unfold comp_def)
  also have "\<dots> = [0..<0 + length ws]" by (rule map_zip_upt_fst) simp
  finally show ?thesis using Some by (simp add: source_words_def)
qed

lemma build_words_text: "map ww_text (build_words t) = map aw_word (source_words t)"
proof (cases "ar_words t")
  case None
  have "map ww_text (build_words t) =
        map (\<lambda>(k, x). aw_word (snd x)) (zip [0..<0 + length (nested_words (ar_segments t))]
                              (nested_words (ar_segments t)))"
    by (simp add: build_words_nested [OF None] nested_word_def case_prod_unfold comp_def)
  also have "\<dots> = map (\<lambda>x. aw_word (snd x)) (nested_words (ar_segments t))"
    by (rule map_zip_upt_snd) simp
  finally show ?thesis using None by (simp add: source_words_def flatten_words_nested comp_def)
next
  case (Some ws)
  have "map ww_text (build_words t) = map (\<lambda>(k, x). aw_word x) (zip [0..<0 + length ws] ws)"
    by (simp add: build_words_top [OF Some] top_level_word_def case_prod_unfold comp_def)
  also have "\<dots> = map aw_word ws" by (rule map_zip_upt_snd) simp
  finally show ?thesis using Some by (simp add: source_words_def)
qed

lemma build_words_flag:
  "map ww_is_punctuation (build_words t) = map (\<lambda>w. punctuation_regex_test (ww_text w)) (build_words t)"
  by (cases "ar_words t")
     (simp_all add: build_words_nested build_words_top nested_word_def top_level_word_def
        case_prod_unfold)

lemma punctuation_regex_test_iff: "punctuation_regex_test s \<longleftrightarrow> s \<in> punctuation_tokens"
proof (cases s)
  case Nil
  then show ?thesis by (simp add: punctuation_regex_test_def punctuation_tokens_def)
next
  case (Cons c cs)
  then show ?thesis
    by (cases cs) (auto simp: punctuation_regex_test_def punctuation_tokens_def punctuation_class_def)
qed

text \<open>
  Claim C5. For every input word that enrichment processes, the emitted word keeps the
  word's text, and its \<^verbatim>\<open>is_punctuation\<close> flag is true exactly when the whole text is
  one of the eleven tokens \<^verbatim>\<open>. , ! ? ; : ' " ( ) -\<close>; a word \<^verbatim>\<open>,\<close> is punctuation and
  a word \<^verbatim>\<open>don't\<close> is not, on both paths that build words.
\<close>

theorem punctuation_flag_whole_token:
  "map ww_text (emitted_words (createWtfTranscription now input)) =
     map aw_word (source_words (ei_transcription input)) \<and>
   map ww_is_punctuation (emitted_words (createWtfTranscription now input)) =
     map (\<lambda>w. aw_word w \<in> punctuation_tokens) (source_words (ei_transcription input)) \<and>
   ww_is_punctuation (top_level_word k (w\<lparr>aw_word := '',''\<rparr>)) \<and>
   ww_is_punctuation (nested_word seg k (w\<lparr>aw_word := '',''\<rparr>)) \<and>
   \<not> ww_is_punctuation (top_level_word k (w\<lparr>aw_word := ''don't''\<rparr>)) \<and>
   \<not> ww_is_punctuation (nested_word seg k (w\<lparr>aw_word := ''don't''\<rparr>))"
proof -
  let ?t = "ei_transcription input"
  have "map ww_is_punctuation (build_words ?t) =
        map (\<lambda>s. s \<in> punctuation_tokens) (map ww_text (build_words ?t))"
    by (simp add: build_words_flag punctuation_regex_test_iff comp_def)
  also have "\<dots> = map (\<lambda>w. aw_word w \<in> punctuation_tokens) (source_words ?t)"
    by (simp add: build_words_text comp_def)
  finally have flags: "map ww_is_punctuation (build_words ?t) =
        map (\<lambda>w. aw_word w \<in> punctuation_tokens) (source_words ?t)" .
  show ?thesis
    by (simp add: emitted_words_build build_words_text flags top_level_word_def nested_word_def
          punctuation_regex_test_def punctuation_class_def)
qed

lemma build_segments_length: "length (build_segments words segs) = length segs"
  by (simp add: build_segments_def)

lemma build_segments_nth:
  "idx < length segs \<Longrightarrow> build_segments words segs ! idx = build_segment words (segs ! idx) idx"
  by (simp add: build_segments_def)

lemma build_segments_ids: "map ws_id (build_segments words segs) = [0..<length segs]"
  by (rule nth_equalityI) (simp_all add: build_segments_length build_segments_nth build_segment_def Let_def)

lemma ids_of_filter:
  assumes "map f xs = [0..<length xs]"
  shows "map f (filter P xs) = filter (\<lambda>j. P (xs ! j)) [0..<length xs]"
proof -
  have f: "f (xs ! j) = j" if "j < length xs" for j
  proof -
    have "map f xs ! j = [0..<length xs] ! j" using assms by simp
    with that show ?thesis by simp
  qed
  have "filter P xs = filter P (map ((!) xs) [0..<length xs])" by (simp add: map_nth)
  also have "\<dots> = map ((!) xs) (filter (\<lambda>j. P (xs ! j)) [0..<length xs])"
    by (simp add: filter_map comp_def)
  finally have "map f (filter P xs) = map (\<lambda>j. f (xs ! j)) (filter (\<lambda>j. P (xs ! j)) [0..<length xs])"
    by (simp add: comp_def)
  also have "\<dots> = map (\<lambda>j. j) (filter (\<lambda>j. P (xs ! j)) [0..<length xs])"
    by (rule map_cong) (auto simp: f)
  finally show ?thesis by simp
qed

lemma segment_word_ids_positions:
  "segment_word_ids (build_words t) seg =
     filter (\<lambda>j. word_within (build_words t ! j) seg) [0..<length (build_words t)]"
proof -
  have "map ww_id (build_words t) = [0..<length (build_words t)]"
    by (simp add: build_words_ids build_words_length)
  from ids_of_filter [OF this] show ?thesis
    by (simp add: segment_word_ids_def word_within_def)
qed

lemma wtf_segments_build:
  "wtf_segments (createWtfTranscription now input) =
     build_segments (build_words (ei_transcription input)) (ar_segments (ei_transcription input))"
  by (simp add: createWtfTranscription_def Let_def)

text \<open>
  Claim C6. Every provider segment becomes the segment at its position, with that
  position as id; its \<^verbatim>\<open>words\<close> field lists, in ascending order, exactly the positions
  of the built words whose closed interval lies within the closed interval of the
  segment, and the field is omitted when there is none.
\<close>

theorem segment_ids_and_member_words:
  assumes "idx < length (ar_segments (ei_transcription input))"
  shows "length (wtf_segments (createWtfTranscription now input)) =
           length (ar_segments (ei_transcription input)) \<and>
         ws_id (wtf_segments (createWtfTranscription now input) ! idx) = idx \<and>
         ws_words (wtf_segments (createWtfTranscription now input) ! idx) =
           (let words = emitted_words (createWtfTranscription now input);
                ids = filter (\<lambda>j. word_within (words ! j) (ar_segments (ei_transcription input) ! idx))
                        [0..<length words]
            in if ids = [] then None else Some ids)"
  using assms
  by (simp add: wtf_segments_build emitted_words_build build_segments_length build_segments_nth
        build_segment_def Let_def segment_word_ids_positions)

text \<open>
  Claim C10. In every record that enrichment produces the word ids are the positions
  \<open>0, ..., n - 1\<close> of the word collection, the segment ids are the positions of the
  segments, both are free of repetitions, and every index in the \<^verbatim>\<open>words\<close> list of a
  segment is the position of an entry of the word collection.
\<close>

theorem ids_unique_and_references_valid:
  "map ww_id (emitted_words (createWtfTranscription now input)) =
     [0..<length (emitted_words (createWtfTranscription now input))] \<and>
   distinct (map ww_id (emitted_words (createWtfTranscription now input))) \<and>
   map ws_id (wtf_segments (createWtfTranscription now input)) =
     [0..<length (wtf_segments (createWtfTranscription now input))] \<and>
   distinct (map ws_id (wtf_segments (createWtfTranscription now input))) \<and>
   (\<forall>seg \<in> set (wtf_segments (createWtfTranscription now input)).
      \<forall>ids. ws_words seg = Some ids \<longrightarrow>
        (\<forall>j \<in> set ids. j < length (emitted_words (createWtfTranscription now input))))"
proof -
  let ?t = "ei_transcription input"
  have w: "map ww_id (build_words ?t) = [0..<length (build_words ?t)]"
    by (simp add: build_words_ids build_words_length)
  have s: "map ws_id (build_segments (build_words ?t) (ar_segments ?t)) =
           [0..<length (build_segments (build_words ?t) (ar_segments ?t))]"
    by (simp add: build_segments_ids build_segments_length)
  have r: "j < length (build_words ?t)"
    if "seg \<in> set (build_segments (build_words ?t) (ar_segments ?t))"
      and "ws_words seg = Some ids" and "j \<in> set ids" for seg ids j
  proof -
    from that(1) obtain idx where idx: "idx < length (ar_segments ?t)"
      and seg: "seg = build_segment (build_words ?t) (ar_segments ?t ! idx) idx"
      by (auto simp: in_set_conv_nth build_segments_length build_segments_nth)
    from that(2) seg have "ids = segment_word_ids (build_words ?t) (ar_segments ?t ! idx)"
      by (simp add: build_segment_def Let_def split: if_splits)
    with that(3) show ?thesis by (simp add: segment_word_ids_positions)
  qed
  have dw: "distinct (map ww_id (build_words ?t))" by (subst w) simp
  have ds: "distinct (map ws_id (build_segments (build_words ?t) (ar_segments ?t)))"
    by (subst s) simp
  show ?thesis
    using w s r dw ds by (simp add: emitted_words_build wtf_segments_build)
qed

lemma map_set_keys:
  "map fst (map_set m k v) = (if k \<in> set (map fst m) then map fst m else map fst m @ [k])"
  by (induction m) force+

lemma map_set_distinct: "distinct (map fst m) \<Longrightarrow> distinct (map fst (map_set m k v))"
  by (simp add: map_set_keys)

lemma foldl_map_set_distinct:
  "distinct (map fst acc) \<Longrightarrow>
   distinct (map fst (foldl (\<lambda>obj (k, x). map_set obj k (g k x)) acc kvs))"
  by (induction kvs arbitrary: acc) (auto simp: map_set_distinct)

lemma build_speakers_distinct: "distinct (map fst (build_speakers segments))"
  unfolding build_speakers_def Let_def
  by (rule foldl_map_set_distinct) simp

lemma speaker_map_build:
  "speaker_map (createWtfTranscription now input) =
     build_speakers (build_segments (build_words (ei_transcription input))
                       (ar_segments (ei_transcription input)))"
  by (simp add: speaker_map_def createWtfTranscription_def Let_def object_keys_def)

lemma tenth_exceeded: "(real a > real n * 0.1) = (10 * a > n)"
proof -
  have "(real n * 0.1 < real a) = (real n < real (10 * a))" by (simp add: mult.commute)
  then show ?thesis by (simp only: of_nat_less_iff)
qed

lemma parseInt10_0: "parseInt10 ''0'' = IntVal 0"
  by (simp add: parseInt10_def is_js_whitespace_def is_decimal_digit_def)

lemma parseInt10_1: "parseInt10 ''1'' = IntVal 1"
  by (simp add: parseInt10_def is_js_whitespace_def is_decimal_digit_def)

lemma String_of_0: "String_of (IntVal 0) = ''0''"
  by code_simp

lemma String_of_1: "String_of (IntVal 1) = ''1''"
  by code_simp

lemma two_speakers:
  assumes "map as_speaker segs = [Some ''0'', Some ''1'']"
  shows "map fst (build_speakers (build_segments words segs)) = [''0'', ''1'']"
proof -
  from assms obtain s0 s1 where segs: "segs = [s0, s1]"
    and s0: "as_speaker s0 = Some ''0''" and s1: "as_speaker s1 = Some ''1''"
    by (cases segs; cases "tl segs") auto
  have m: "fst (speaker_maps (build_segments words segs)) = [(''0'', [0]), (''1'', [1])]"
    by (simp add: segs build_segments_def build_segment_def Let_def s0 s1 speaker_number_def
          parseInt10_0 parseInt10_1 speaker_maps_def speaker_step_def String_of_0 String_of_1
          map_has_def map_get_def)
  show ?thesis by (simp add: build_speakers_def Let_def m)
qed

text \<open>
  Claim C7. In the quality block, \<^verbatim>\<open>average_confidence\<close> is the overall confidence of
  the provider result, \<^verbatim>\<open>low_confidence_words\<close> counts the words whose confidence is
  below 0.7, \<^verbatim>\<open>multiple_speakers\<close> holds exactly when the speaker map (whose keys are
  distinct) has more than one entry, segments tagged \<^verbatim>\<open>"0"\<close> and \<^verbatim>\<open>"1"\<close> give two
  entries and \<^verbatim>\<open>multiple_speakers\<close>, and \<^verbatim>\<open>processing_warnings\<close> holds the one fixed
  warning exactly when the low-confidence words are more than a tenth of all words.
\<close>

theorem quality_block:
  "q_average_confidence (wtf_quality (createWtfTranscription now input)) =
     ar_confidence (ei_transcription input) \<and>
   q_low_confidence_words (wtf_quality (createWtfTranscription now input)) =
     length (filter (\<lambda>w. ww_confidence w < 0.7) (emitted_words (createWtfTranscription now input))) \<and>
   distinct (map fst (speaker_map (createWtfTranscription now input))) \<and>
   (q_multiple_speakers (wtf_quality (createWtfTranscription now input)) \<longleftrightarrow>
      length (speaker_map (createWtfTranscription now input)) > 1) \<and>
   (map as_speaker (ar_segments (ei_transcription input)) = [Some ''0'', Some ''1''] \<longrightarrow>
      length (speaker_map (createWtfTranscription now input)) = 2 \<and>
      q_multiple_speakers (wtf_quality (createWtfTranscription now input))) \<and>
   q_processing_warnings (wtf_quality (createWtfTranscription now input)) =
     (if 10 * q_low_confidence_words (wtf_quality (createWtfTranscription now input)) >
         length (emitted_words (createWtfTranscription now input))
      then [''High number of low-confidence words''] else [])"
proof -
  let ?t = "ei_transcription input"
  let ?sp = "build_speakers (build_segments (build_words ?t) (ar_segments ?t))"
  have q: "wtf_quality (createWtfTranscription now input) = build_quality ?t (build_words ?t) ?sp"
    by (simp add: createWtfTranscription_def Let_def)
  have two: "length ?sp = 2"
    if "map as_speaker (ar_segments ?t) = [Some ''0'', Some ''1'']"
    using two_speakers [OF that, of "build_words ?t"] by (metis length_map length_Cons list.size(3) numeral_2_eq_2)
  show ?thesis
    using two
    by (simp add: q speaker_map_build emitted_words_build build_quality_def Let_def
          low_confidence_count_def object_keys_def build_speakers_distinct tenth_exceeded)
qed






subsection \<open>The properties at the example inputs\<close>

lemma ex_build_words:
  "build_words ex_result =
     [\<lparr>ww_id = 0, ww_start = 0, ww_end = 0.3, ww_text = ''Hello'', ww_confidence = 0.98,
       ww_speaker = Some (IntVal 0), ww_is_punctuation = False\<rparr>,
      \<lparr>ww_id = 1, ww_start = 0.3, ww_end = 0.35, ww_text = '','', ww_confidence = 1,
       ww_speaker = Some (IntVal 0), ww_is_punctuation = True\<rparr>,
      \<lparr>ww_id = 2, ww_start = 0.4, ww_end = 0.6, ww_text = ''don't'', ww_confidence = 0.65,
       ww_speaker = Some (IntVal 0), ww_is_punctuation = False\<rparr>,
      \<lparr>ww_id = 3, ww_start = 1.4, ww_end = 1.6, ww_text = ''go'', ww_confidence = 0.5,
       ww_speaker = Some (IntVal 0), ww_is_punctuation = False\<rparr>]"
  by (simp add: build_words_def ex_result_def ex_segments_def ex_words_def nested_word_def
        speaker_number_def parseInt10_0 punctuation_regex_test_def punctuation_class_def)

lemma ex_source_words: "source_words ex_result = ex_words"
  by (simp add: source_words_def ex_result_def ex_segments_def flatten_words_def)

theorem punctuation_flag_whole_token_witness:
  "map ww_text (emitted_words (createWtfTranscription ex_now ex_input)) =
     [''Hello'', '','', ''don't'', ''go''] \<and>
   map ww_is_punctuation (emitted_words (createWtfTranscription ex_now ex_input)) =
     [False, True, False, False]"
  using punctuation_flag_whole_token [of ex_now ex_input]
  by (simp add: ex_input_def ex_source_words ex_words_def punctuation_tokens_def)

theorem segment_ids_and_member_words_witness:
  "ws_id (wtf_segments (createWtfTranscription ex_now ex_input) ! 0) = 0 \<and>
   ws_words (wtf_segments (createWtfTranscription ex_now ex_input) ! 0) = Some [0, 1, 2] \<and>
   ws_id (wtf_segments (createWtfTranscription ex_now ex_input) ! 1) = 1 \<and>
   ws_words (wtf_segments (createWtfTranscription ex_now ex_input) ! 1) = None"
  using segment_ids_and_member_words [of 0 ex_input ex_now]
    segment_ids_and_member_words [of 1 ex_input ex_now]
  by (simp add: emitted_words_build ex_input_def ex_build_words word_within_def Let_def)
     (simp add: ex_result_def ex_segments_def upt_rec)

theorem ids_unique_and_references_valid_witness:
  "map ww_id (emitted_words (createWtfTranscription ex_now ex_input)) = [0, 1, 2, 3] \<and>
   map ws_id (wtf_segments (createWtfTranscription ex_now ex_input)) = [0, 1] \<and>
   ws_words (wtf_segments (createWtfTranscription ex_now ex_input) ! 0) = Some [0, 1, 2] \<and>
   length (emitted_words (createWtfTranscription ex_now ex_input)) = 4"
  using ids_unique_and_references_valid [of ex_now ex_input]
  by (simp add: emitted_words_build wtf_segments_build ex_input_def ex_build_words
        build_segments_def build_segment_def segment_word_ids_def Let_def)
     (simp add: ex_result_def ex_segments_def upt_rec)

theorem quality_block_witness:
  "q_average_confidence (wtf_quality (createWtfTranscription ex_now ex_input)) = 0.92 \<and>
   q_low_confidence_words (wtf_quality (createWtfTranscription ex_now ex_input)) = 2 \<and>
   length (speaker_map (createWtfTranscription ex_now ex_input)) = 2 \<and>
   q_multiple_speakers (wtf_quality (createWtfTranscription ex_now ex_input)) \<and>
   q_processing_warnings (wtf_quality (createWtfTranscription ex_now ex_input)) =
     [''High number of low-confidence words'']"
proof -
  have "map as_speaker (ar_segments (ei_transcription ex_input)) = [Some ''0'', Some ''1'']"
    by (simp add: ex_input_def ex_result_def ex_segments_def)
  with quality_block [of ex_now ex_input] show ?thesis
    by (simp add: emitted_words_build ex_input_def ex_build_words)
       (simp add: ex_result_def)
qed


section \<open>Properties of normalisation and of the response translation\<close>

text \<open>
  Claim C9. \<^const>\<open>normalizeVcon\<close> is a total function without an error branch (the
  source neither throws nor reads anything but its argument). It returns an
  already-normalized document unchanged, it is idempotent, and its only effect is to
  put the empty array in place of an absent \<^verbatim>\<open>dialog\<close>, \<^verbatim>\<open>analysis\<close> or
  \<^verbatim>\<open>attachments\<close>: every other field, and every array that is present, is kept.
\<close>

theorem normalizeVcon_idempotent:
  "normalizeVcon (as_Vcon n) = n \<and>
   normalizeVcon (as_Vcon (normalizeVcon v)) = normalizeVcon v \<and>
   as_Vcon (normalizeVcon v) =
     v\<lparr>v_dialog := Some (or_empty (v_dialog v)), v_analysis := Some (or_empty (v_analysis v)),
       v_attachments := Some (or_empty (v_attachments v))\<rparr> \<and>
   as_Vcon (normalizeVcon (v\<lparr>v_dialog := Some ds, v_analysis := Some as,
                              v_attachments := Some ts\<rparr>)) =
     v\<lparr>v_dialog := Some ds, v_analysis := Some as, v_attachments := Some ts\<rparr>"
proof (intro conjI)
  show "normalizeVcon (as_Vcon n) = n"
    by (simp add: normalizeVcon_def as_Vcon_def or_empty_def)
  have view: "as_Vcon (normalizeVcon w) =
      w\<lparr>v_dialog := Some (or_empty (v_dialog w)), v_analysis := Some (or_empty (v_analysis w)),
        v_attachments := Some (or_empty (v_attachments w))\<rparr>" for w
    by (simp add: normalizeVcon_def as_Vcon_def)
  show "normalizeVcon (as_Vcon (normalizeVcon v)) = normalizeVcon v"
    by (simp add: view) (simp add: normalizeVcon_def or_empty_def)
  show "as_Vcon (normalizeVcon v) =
      v\<lparr>v_dialog := Some (or_empty (v_dialog v)), v_analysis := Some (or_empty (v_analysis v)),
        v_attachments := Some (or_empty (v_attachments v))\<rparr>"
    by (rule view)
  show "as_Vcon (normalizeVcon (v\<lparr>v_dialog := Some ds, v_analysis := Some as,
                                  v_attachments := Some ts\<rparr>)) =
      v\<lparr>v_dialog := Some ds, v_analysis := Some as, v_attachments := Some ts\<rparr>"
    by (simp add: view or_empty_def)
qed

lemma foldl_add_sum_list: "foldl (\<lambda>sum s. sum + f s) (a::real) xs = a + sum_list (map f xs)"
  by (induction xs arbitrary: a) simp_all

text \<open>
  Claim C8, as amended, for the six backends. NVIDIA: the overall confidence is the one
  the response reports when that is not \<open>0\<close>; when the response reports none, or
  reports \<open>0\<close>, it is the unweighted average of the per-segment confidences if there
  is a segment, and \<open>0\<close> otherwise. Deepgram: it is the confidence of the first
  alternative of the first channel, and \<open>0\<close> when there is no such alternative. OpenAI
  and Groq, whose responses report no confidence: every segment gets
  \<open>min (exp avg_logprob) 1\<close>, and the overall confidence is the unweighted average of
  these, \<open>0.95\<close> without segments. The local and the MLX Whisper server: the same, a
  segment without \<^verbatim>\<open>avg_logprob\<close> getting \<open>0.95\<close>.
\<close>

theorem confidence_derivation:
  "(nr_confidence r = Some c \<and> c \<noteq> 0 \<longrightarrow>
      ar_confidence (nvidia_transformResponse m r t) = c) \<and>
   ((nr_confidence r = None \<or> nr_confidence r = Some 0) \<and> or_empty (nr_segments r) \<noteq> [] \<longrightarrow>
      ar_confidence (nvidia_transformResponse m r t) =
        sum_list (map ns_confidence (or_empty (nr_segments r))) /
        real (length (or_empty (nr_segments r)))) \<and>
   ((nr_confidence r = None \<or> nr_confidence r = Some 0) \<and> or_empty (nr_segments r) = [] \<longrightarrow>
      ar_confidence (nvidia_transformResponse m r t) = 0) \<and>
   map as_confidence (ar_segments (groq_transformResponse m g t)) =
     map (\<lambda>s. min (exp (gs_avg_logprob s)) 1) (or_empty (gr_segments g)) \<and>
   (or_empty (gr_segments g) \<noteq> [] \<longrightarrow>
      ar_confidence (groq_transformResponse m g t) =
        sum_list (map (\<lambda>s. min (exp (gs_avg_logprob s)) 1) (or_empty (gr_segments g))) /
        real (length (or_empty (gr_segments g)))) \<and>
   (or_empty (gr_segments g) = [] \<longrightarrow> ar_confidence (groq_transformResponse m g t) = 0.95) \<and>
   map as_confidence (ar_segments (openai_transformResponse m oa t)) =
     map (\<lambda>s. min (exp (osg_avg_logprob s)) 1) (or_empty (orsp_segments oa)) \<and>
   (or_empty (orsp_segments oa) \<noteq> [] \<longrightarrow>
      ar_confidence (openai_transformResponse m oa t) =
        sum_list (map (\<lambda>s. min (exp (osg_avg_logprob s)) 1) (or_empty (orsp_segments oa))) /
        real (length (or_empty (orsp_segments oa)))) \<and>
   (or_empty (orsp_segments oa) = [] \<longrightarrow>
      ar_confidence (openai_transformResponse m oa t) = 0.95) \<and>
   map as_confidence (ar_segments (local_whisper_transformResponse m w t)) =
     map (\<lambda>s. case whs_avg_logprob s of None \<Rightarrow> 0.95 | Some lp \<Rightarrow> min (exp lp) 1)
       (or_empty (whr_segments w)) \<and>
   ar_segments (mlx_whisper_transformResponse m w t) =
     ar_segments (local_whisper_transformResponse m w t) \<and>
   ar_confidence (mlx_whisper_transformResponse m w t) =
     ar_confidence (local_whisper_transformResponse m w t) \<and>
   (or_empty (whr_segments w) \<noteq> [] \<longrightarrow>
      ar_confidence (local_whisper_transformResponse m w t) =
        sum_list (map (\<lambda>s. case whs_avg_logprob s of None \<Rightarrow> 0.95 | Some lp \<Rightarrow> min (exp lp) 1)
                    (or_empty (whr_segments w))) /
        real (length (or_empty (whr_segments w)))) \<and>
   (or_empty (whr_segments w) = [] \<longrightarrow>
      ar_confidence (local_whisper_transformResponse m w t) = 0.95) \<and>
   ar_confidence (deepgram_transformResponse m d t) =
     (case deepgram_first_alternative d of None \<Rightarrow> 0 | Some a \<Rightarrow> dga_confidence a) \<and>
   (dgr_channels d = ch # chs \<and> dgc_alternatives ch = a # alts \<longrightarrow>
      ar_confidence (deepgram_transformResponse m d t) = dga_confidence a) \<and>
   (dgr_channels d = [] \<or> (dgr_channels d = ch # chs \<and> dgc_alternatives ch = []) \<longrightarrow>
      ar_confidence (deepgram_transformResponse m d t) = 0)"
proof -
  have nv: "(nr_confidence r = Some c \<and> c \<noteq> 0 \<longrightarrow>
      ar_confidence (nvidia_transformResponse m r t) = c) \<and>
   ((nr_confidence r = None \<or> nr_confidence r = Some 0) \<and> or_empty (nr_segments r) \<noteq> [] \<longrightarrow>
      ar_confidence (nvidia_transformResponse m r t) =
        sum_list (map ns_confidence (or_empty (nr_segments r))) /
        real (length (or_empty (nr_segments r)))) \<and>
   ((nr_confidence r = None \<or> nr_confidence r = Some 0) \<and> or_empty (nr_segments r) = [] \<longrightarrow>
      ar_confidence (nvidia_transformResponse m r t) = 0)"
    by (auto simp: nvidia_transformResponse_def nvidia_confidence_def Let_def option_or_def
          foldl_add_sum_list split: option.splits)
  have gq: "map as_confidence (ar_segments (groq_transformResponse m g t)) =
     map (\<lambda>s. min (exp (gs_avg_logprob s)) 1) (or_empty (gr_segments g)) \<and>
   (or_empty (gr_segments g) \<noteq> [] \<longrightarrow>
      ar_confidence (groq_transformResponse m g t) =
        sum_list (map (\<lambda>s. min (exp (gs_avg_logprob s)) 1) (or_empty (gr_segments g))) /
        real (length (or_empty (gr_segments g)))) \<and>
   (or_empty (gr_segments g) = [] \<longrightarrow> ar_confidence (groq_transformResponse m g t) = 0.95)"
    by (simp add: groq_transformResponse_def groq_segment_def Let_def foldl_add_sum_list
          comp_def)
  have op: "map as_confidence (ar_segments (openai_transformResponse m oa t)) =
     map (\<lambda>s. min (exp (osg_avg_logprob s)) 1) (or_empty (orsp_segments oa)) \<and>
   (or_empty (orsp_segments oa) \<noteq> [] \<longrightarrow>
      ar_confidence (openai_transformResponse m oa t) =
        sum_list (map (\<lambda>s. min (exp (osg_avg_logprob s)) 1) (or_empty (orsp_segments oa))) /
        real (length (or_empty (orsp_segments oa)))) \<and>
   (or_empty (orsp_segments oa) = [] \<longrightarrow>
      ar_confidence (openai_transformResponse m oa t) = 0.95)"
    by (simp add: openai_transformResponse_def openai_segment_def Let_def foldl_add_sum_list
          comp_def)
  have wh: "map as_confidence (ar_segments (local_whisper_transformResponse m w t)) =
     map (\<lambda>s. case whs_avg_logprob s of None \<Rightarrow> 0.95 | Some lp \<Rightarrow> min (exp lp) 1)
       (or_empty (whr_segments w)) \<and>
   ar_segments (mlx_whisper_transformResponse m w t) =
     ar_segments (local_whisper_transformResponse m w t) \<and>
   ar_confidence (mlx_whisper_transformResponse m w t) =
     ar_confidence (local_whisper_transformResponse m w t) \<and>
   (or_empty (whr_segments w) \<noteq> [] \<longrightarrow>
      ar_confidence (local_whisper_transformResponse m w t) =
        sum_list (map (\<lambda>s. case whs_avg_logprob s of None \<Rightarrow> 0.95 | Some lp \<Rightarrow> min (exp lp) 1)
                    (or_empty (whr_segments w))) /
        real (length (or_empty (whr_segments w)))) \<and>
   (or_empty (whr_segments w) = [] \<longrightarrow>
      ar_confidence (local_whisper_transformResponse m w t) = 0.95)"
    by (simp add: local_whisper_transformResponse_def mlx_whisper_transformResponse_def
          whisper_segment_def Let_def foldl_add_sum_list comp_def)
  have dg: "ar_confidence (deepgram_transformResponse m d t) =
     (case deepgram_first_alternative d of None \<Rightarrow> 0 | Some a \<Rightarrow> dga_confidence a)"
    by (simp add: deepgram_transformResponse_def Let_def split: option.splits)
  have dg1: "dgr_channels d = ch # chs \<and> dgc_alternatives ch = a # alts \<longrightarrow>
      ar_confidence (deepgram_transformResponse m d t) = dga_confidence a"
    by (simp add: dg deepgram_first_alternative_def)
  have dg0: "dgr_channels d = [] \<or> (dgr_channels d = ch # chs \<and> dgc_alternatives ch = []) \<longrightarrow>
      ar_confidence (deepgram_transformResponse m d t) = 0"
    by (auto simp: dg deepgram_first_alternative_def)
  from nv gq op wh dg dg1 dg0 show ?thesis by blast
qed

text \<open>
  Claim C8, as stated, fails: a reported confidence of \<open>0\<close> is replaced by the average
  of the segments.
\<close>

theorem reported_zero_confidence_counterexample:
  "nr_confidence cx_nvidia_response = Some 0 \<and>
   ar_confidence (nvidia_transformResponse ''parakeet-tdt-1.1b'' cx_nvidia_response 400) \<noteq> 0"
  by (simp add: cx_nvidia_response_def nvidia_transformResponse_def nvidia_confidence_def
        option_or_def or_empty_def)

theorem normalizeVcon_idempotent_witness:
  "normalizeVcon (as_Vcon (normalizeVcon ex_valid_vcon)) = normalizeVcon ex_valid_vcon \<and>
   nv_dialog (normalizeVcon ex_valid_vcon) = [ex_audio_dialog] \<and>
   nv_analysis (normalizeVcon ex_valid_vcon) = [ex_summary] \<and>
   nv_attachments (normalizeVcon ex_valid_vcon) = [] \<and>
   v_attachments (as_Vcon (normalizeVcon ex_valid_vcon)) = Some []"
  using normalizeVcon_idempotent [of "normalizeVcon ex_valid_vcon" ex_valid_vcon]
  by (simp add: ex_valid_vcon_def or_empty_def) (simp add: normalizeVcon_def or_empty_def)

theorem confidence_derivation_witness:
  "ar_confidence (nvidia_transformResponse ''parakeet-tdt-1.1b'' ex_nvidia_response 400) = 0.9 \<and>
   ar_confidence (nvidia_transformResponse ''parakeet-tdt-1.1b'' cx_nvidia_response 400) = 0.8 \<and>
   map as_confidence
     (ar_segments (groq_transformResponse ''whisper-large-v3'' ex_groq_response 400)) = [1] \<and>
   ar_confidence (groq_transformResponse ''whisper-large-v3'' ex_groq_response 400) = 1 \<and>
   ar_confidence (openai_transformResponse ''whisper-1'' ex_openai_response 400) = 1 \<and>
   map as_confidence
     (ar_segments (local_whisper_transformResponse ''base'' ex_whisper_response 400)) =
     [1, 0.95] \<and>
   ar_confidence (local_whisper_transformResponse ''base'' ex_whisper_response 400) = 0.975 \<and>
   ar_confidence (mlx_whisper_transformResponse ''base'' ex_whisper_response 400) = 0.975 \<and>
   ar_confidence (deepgram_transformResponse ''nova-2'' ex_deepgram_response 400) = 0.97 \<and>
   ar_confidence (deepgram_transformResponse ''nova-2'' ex_deepgram_empty_response 400) = 0"
  using confidence_derivation [where r = ex_nvidia_response and c = "0.9"
          and m = "''parakeet-tdt-1.1b''" and t = 400 and g = ex_groq_response]
    confidence_derivation [where r = cx_nvidia_response and c = 0
          and m = "''parakeet-tdt-1.1b''" and t = 400 and g = ex_groq_response]
    confidence_derivation [where r = cx_nvidia_response and c = 0
          and m = "''whisper-large-v3''" and t = 400 and g = ex_groq_response]
    confidence_derivation [where m = "''whisper-1''" and t = 400 and oa = ex_openai_response]
    confidence_derivation [where m = "''base''" and t = 400 and w = ex_whisper_response]
    confidence_derivation [where m = "''nova-2''" and t = 400 and d = ex_deepgram_response
          and ch = "\<lparr>dgc_alternatives = [ex_deepgram_alternative]\<rparr>" and chs = "[]"
          and a = ex_deepgram_alternative and alts = "[]"]
    confidence_derivation [where m = "''nova-2''" and t = 400
          and d = ex_deepgram_empty_response]
  by (simp add: ex_nvidia_response_def cx_nvidia_response_def ex_groq_response_def
        ex_openai_response_def ex_whisper_response_def ex_deepgram_response_def
        ex_deepgram_empty_response_def ex_deepgram_alternative_def or_empty_def)

section \<open>Properties of the orchestrator and of the batch route\<close>

lemma promise_all_map_Inr: "promise_all (map Inr xs) = Inr xs"
  by (induction xs) simp_all

lemma promise_all_Inr_D: "promise_all ps = Inr xs \<Longrightarrow> ps = map Inr xs"
  by (induction ps arbitrary: xs) (auto split: sum.splits)

lemma promise_all_Inr_iff: "promise_all ps = Inr xs \<longleftrightarrow> ps = map Inr xs"
  using promise_all_map_Inr promise_all_Inr_D by metis

lemma promise_all_all_resolved:
  assumes "\<forall>p \<in> set ps. \<exists>x. p = Inr x"
  shows "\<exists>xs. promise_all ps = Inr xs \<and> ps = map Inr xs"
proof -
  from assms have "ps = map Inr (map projr ps)"
    by (induction ps) auto
  then show ?thesis using promise_all_Inr_iff [of ps "map projr ps"] by metis
qed

lemma promise_all_rejected:
  assumes "Inl e \<in> set ps"
  shows "\<exists>e'. promise_all ps = Inl e'"
proof (cases "promise_all ps")
  case (Inl e')
  then show ?thesis by blast
next
  case (Inr xs)
  then have "ps = map Inr xs" by (simp add: promise_all_Inr_iff)
  with assms show ?thesis by auto
qed

lemma enrich_loop_snd: "snd (enrich_loop clock inputs st) = snd st + length inputs"
  by (induction inputs arbitrary: st) auto

lemma enrich_loop_fst:
  "fst (enrich_loop clock inputs st) =
     fst st @
     map (\<lambda>(k, input).
            createWtfAnalysis (ei_dialogIndex input) (createWtfTranscription (clock k) input)
              (ei_provider input) (ei_model input))
       (zip [snd st..<snd st + length inputs] inputs)"
proof (induction inputs arbitrary: st)
  case Nil
  show ?case by simp
next
  case (Cons input inputs)
  have "[snd st..<snd st + length (input # inputs)] =
        snd st # [Suc (snd st)..<Suc (snd st) + length inputs]"
    by (subst upt_rec) simp
  then show ?case
    using Cons.IH [of "(fst st @ [createWtfAnalysis (ei_dialogIndex input)
             (createWtfTranscription (clock (snd st)) input) (ei_provider input)
             (ei_model input)], Suc (snd st))"]
    by simp
qed

lemma enrich_loop_types:
  "map an_type (fst (enrich_loop clock inputs ([], 0))) =
     replicate (length inputs) ''wtf_transcription''"
  by (rule nth_equalityI)
     (simp_all add: enrich_loop_fst createWtfAnalysis_def case_prod_unfold)

lemma enrich_loop_dialogs:
  "map an_dialog (fst (enrich_loop clock inputs ([], 0))) =
     map (\<lambda>input. Some (OneIndex (ei_dialogIndex input))) inputs"
  by (rule nth_equalityI)
     (simp_all add: enrich_loop_fst createWtfAnalysis_def case_prod_unfold)

lemma enrich_loop_bodies:
  "map an_body (fst (enrich_loop clock inputs ([], 0))) =
     map (\<lambda>(k, input). Some (BodyWtf (createWtfTranscription (clock k) input)))
       (zip [0..<length inputs] inputs)"
  by (rule nth_equalityI)
     (simp_all add: enrich_loop_fst createWtfAnalysis_def case_prod_unfold)

lemma enrich_analysis:
  "nv_analysis (enrichVconWithTranscriptions clock vcon inputs) =
     nv_analysis vcon @ fst (enrich_loop clock inputs ([], 0))"
  by (simp add: enrichVconWithTranscriptions_def Let_def)

lemma enrich_updated_at:
  "nv_updated_at (enrichVconWithTranscriptions clock vcon inputs) = Some (clock (length inputs))"
  by (simp add: enrichVconWithTranscriptions_def Let_def enrich_loop_snd)

lemma extract_step_extracted:
  "ex_extracted (extract_step env result entry) = ex_extracted result \<or>
   (\<exists>a. ex_extracted (extract_step env result entry) = ex_extracted result @ [a] \<and>
        ea_dialogIndex a = fst entry)"
  by (auto simp: extract_step_def Let_def split: sum.splits option.splits)

lemma extract_loop_indices:
  "\<exists>js. map ea_dialogIndex (ex_extracted (foldl (extract_step env) result dialogs)) =
          map ea_dialogIndex (ex_extracted result) @ js \<and>
        set js \<subseteq> set (map fst dialogs) \<and>
        (sorted_wrt (<) (map fst dialogs) \<longrightarrow> sorted_wrt (<) js)"
proof (induction dialogs arbitrary: result)
  case Nil
  show ?case by simp
next
  case (Cons entry dialogs)
  let ?r = "extract_step env result entry"
  from Cons.IH [of ?r] obtain js where js:
    "map ea_dialogIndex (ex_extracted (foldl (extract_step env) ?r dialogs)) =
       map ea_dialogIndex (ex_extracted ?r) @ js"
    "set js \<subseteq> set (map fst dialogs)"
    "sorted_wrt (<) (map fst dialogs) \<longrightarrow> sorted_wrt (<) js"
    by blast
  from extract_step_extracted [of env result entry]
  consider (same) "ex_extracted ?r = ex_extracted result"
    | (more) a where "ex_extracted ?r = ex_extracted result @ [a]" "ea_dialogIndex a = fst entry"
    by blast
  then show ?case
  proof cases
    case same
    with js show ?thesis by (intro exI [of _ js]) auto
  next
    case more
    with js show ?thesis by (intro exI [of _ "fst entry # js"]) auto
  qed
qed

lemma extracted_indices_sorted:
  assumes "sorted_wrt (<) (map fst dialogs)"
  shows "sorted_wrt (<) (map ea_dialogIndex (ex_extracted (extractAudioFromDialogs env dialogs)))"
  using extract_loop_indices [of env "\<lparr>ex_extracted = [], ex_errors = [], ex_skipped = []\<rparr>" dialogs]
    assms
  by (auto simp: extractAudioFromDialogs_def)

lemma audio_dialogs_sorted:
  assumes "parseVcon safeParse input = ParseResult vcon audioDialogs"
  shows "sorted_wrt (<) (map fst audioDialogs)"
proof -
  from assms obtain data where ad: "audioDialogs =
      filter (\<lambda>entry. isAudioDialog (snd entry))
        (map (\<lambda>(dialog, index). (index, dialog))
           (zip (nv_dialog (normalizeVcon data)) [0..<length (nv_dialog (normalizeVcon data))]))"
    by (auto simp: parseVcon_def Let_def split: sum.splits)
  let ?ds = "nv_dialog (normalizeVcon data)"
  have "map fst (map (\<lambda>(dialog, index). (index, dialog)) (zip ?ds [0..<length ?ds])) =
        map snd (zip ?ds [0..<length ?ds])"
    by (simp add: case_prod_unfold comp_def)
  also have "\<dots> = [0..<length ?ds]" by (simp add: map_snd_zip)
  finally have "sorted_wrt (<) (map fst (map (\<lambda>(dialog, index). (index, dialog))
                  (zip ?ds [0..<length ?ds])))"
    by (simp only: sorted_wrt_upt)
  then have "sorted_wrt (\<lambda>x y. fst x < fst y) (map (\<lambda>(dialog, index). (index, dialog))
                  (zip ?ds [0..<length ?ds]))"
    by (simp only: sorted_wrt_map)
  then have "sorted_wrt (\<lambda>x y. fst x < fst y) audioDialogs"
    unfolding ad by (rule sorted_wrt_filter)
  then show ?thesis by (simp add: sorted_wrt_map)
qed

lemma parse_input_analysis:
  assumes "parseVcon safeParse input = ParseResult vcon audioDialogs"
  shows "\<exists>data. safeParse input = Inr data \<and> vcon = normalizeVcon data \<and>
           nv_analysis vcon = or_empty (v_analysis data) \<and>
           audioDialogs =
             filter (\<lambda>entry. isAudioDialog (snd entry))
               (map (\<lambda>(dialog, index). (index, dialog))
                  (zip (or_empty (v_dialog data)) [0..<length (or_empty (v_dialog data))]))"
  using assms
  by (auto simp: parseVcon_def Let_def normalizeVcon_def split: sum.splits)

lemma run_unconfigured:
  assumes "\<not> pc_isConfigured (selected_provider env options)"
  shows "\<exists>message. transcribeVcon_run env input options =
           ([], Inr (TranscriptionFailure message None))"
  using assms by (simp add: transcribeVcon_run_def selected_provider_def Let_def)

lemma run_invalid:
  assumes "pc_isConfigured (selected_provider env options)"
    and "env_safeParse env input = Inl errors"
  shows "transcribeVcon_run env input options =
           ([ParseValidate],
            Inr (TranscriptionFailure ''Invalid VCON format'' (Some (map issue_detail errors))))"
  using assms by (simp add: transcribeVcon_run_def selected_provider_def Let_def parseVcon_def)

lemma run_no_audio:
  assumes "pc_isConfigured (selected_provider env options)"
    and "parseVcon (env_safeParse env) input = ParseResult vcon []"
  shows "transcribeVcon_run env input options =
           ([ParseValidate], Inr (TranscriptionFailure ''No audio dialogs found in VCON'' None))"
  using assms by (simp add: transcribeVcon_run_def selected_provider_def Let_def)

lemma run_no_extraction:
  assumes "pc_isConfigured (selected_provider env options)"
    and "parseVcon (env_safeParse env) input = ParseResult vcon audioDialogs"
    and "audioDialogs \<noteq> []"
    and "ex_extracted (extractAudioFromDialogs env audioDialogs) = []"
  shows "transcribeVcon_run env input options =
           ([ParseValidate, ExtractAudio],
            Inr (TranscriptionFailure ''Failed to extract audio from any dialog''
                   (Some (map extraction_detail
                            (ex_errors (extractAudioFromDialogs env audioDialogs))))))"
  using assms by (simp add: transcribeVcon_run_def selected_provider_def Let_def)

lemma run_dispatched:
  assumes "pc_isConfigured (selected_provider env options)"
    and "parseVcon (env_safeParse env) input = ParseResult vcon audioDialogs"
    and "ex_extracted (extractAudioFromDialogs env audioDialogs) = extracted"
    and "extracted \<noteq> []"
  shows "transcribeVcon_run env input options =
           (case transcribeBatch (selected_provider env options)
                   (map (request_of options) extracted) of
              Inl err \<Rightarrow> ([ParseValidate, ExtractAudio, Dispatch], Inl err)
            | Inr batchResults \<Rightarrow>
                ([ParseValidate, ExtractAudio, Dispatch, Enrich],
                 Inr (TranscriptionSuccess
                        (enrichVconWithTranscriptions (env_clock env) vcon
                           (map enrichment_input (zip extracted batchResults)))
                        \<lparr>st_dialogsProcessed = length (zip extracted batchResults),
                         st_dialogsSkipped =
                           length (ex_skipped (extractAudioFromDialogs env audioDialogs)),
                         st_dialogsFailed =
                           length (ex_errors (extractAudioFromDialogs env audioDialogs)),
                         st_totalProcessingTime = env_elapsed env,
                         st_provider =
                           option_or (Option.bind options to_provider)
                             (cfg_asrProvider (env_config env)),
                         st_model =
                           (case zip extracted batchResults of
                              [] \<Rightarrow> None
                            | r # _ \<Rightarrow> ar_model (snd r))\<rparr>)))"
proof -
  have ad: "audioDialogs \<noteq> []"
    using assms(3,4) by (auto simp: extractAudioFromDialogs_def)
  show ?thesis
    using assms ad
    by (simp add: transcribeVcon_run_def selected_provider_def Let_def comp_def
          split: sum.splits)
qed

lemma transcribeVcon_returns:
  assumes "\<forall>req. \<exists>r. pc_transcribe (selected_provider env options) req = Inr r"
  shows "\<exists>res. transcribeVcon env input options = Inr res"
proof (cases "pc_isConfigured (selected_provider env options)")
  case False
  from run_unconfigured [OF False, of input] show ?thesis
    by (auto simp: transcribeVcon_def)
next
  case conf: True
  show ?thesis
  proof (cases "parseVcon (env_safeParse env) input")
    case (ParseError error details)
    with conf show ?thesis
      by (simp add: transcribeVcon_def transcribeVcon_run_def selected_provider_def Let_def)
  next
    case (ParseResult vcon audioDialogs)
    let ?extracted = "ex_extracted (extractAudioFromDialogs env audioDialogs)"
    show ?thesis
    proof (cases "?extracted = []")
      case True
      with conf ParseResult show ?thesis
        by (simp add: transcribeVcon_def transcribeVcon_run_def selected_provider_def Let_def)
    next
      case False
      have "\<forall>p \<in> set (map (pc_transcribe (selected_provider env options))
                          (map (request_of options) ?extracted)). \<exists>x. p = Inr x"
        using assms by auto
      from promise_all_all_resolved [OF this] obtain rs where
        "transcribeBatch (selected_provider env options)
           (map (request_of options) ?extracted) = Inr rs"
        by (auto simp: transcribeBatch_def)
      with run_dispatched [OF conf ParseResult refl False] show ?thesis
        by (simp add: transcribeVcon_def)
    qed
  qed
qed

text \<open>
  Claim C1, as amended. For a configured provider and a valid document: when the audio
  of at least one audio-bearing dialog is extracted and the backend answers the request
  of every extracted dialog, \<^verbatim>\<open>transcribeVcon\<close> succeeds; the output's analysis array
  has the length of the input's plus the number of extracted (and transcribed)
  dialogs, it starts with the input's entries unchanged, the new entries are
  \<^verbatim>\<open>wtf_transcription\<close> entries that follow in strictly increasing dialog index, and
  \<^verbatim>\<open>updated_at\<close> is stamped. When no audio-bearing dialog is extracted the call
  returns the extraction failure, and when the backend rejects the request of an
  extracted dialog the call is rejected.
\<close>

theorem transcribeVcon_appends_transcriptions:
  assumes conf: "pc_isConfigured (selected_provider env options)"
    and parse: "parseVcon (env_safeParse env) input = ParseResult vcon audioDialogs"
    and extr: "ex_extracted (extractAudioFromDialogs env audioDialogs) = extracted"
  shows "(extracted \<noteq> [] \<and>
          (\<forall>a \<in> set extracted.
             \<exists>r. pc_transcribe (selected_provider env options) (request_of options a) = Inr r) \<longrightarrow>
          (\<exists>out stats data.
             transcribeVcon env input options = Inr (TranscriptionSuccess out stats) \<and>
             env_safeParse env input = Inr data \<and>
             nv_analysis vcon = or_empty (v_analysis data) \<and>
             length (nv_analysis out) = length (nv_analysis vcon) + length extracted \<and>
             take (length (nv_analysis vcon)) (nv_analysis out) = nv_analysis vcon \<and>
             map an_type (appended_entries (length (nv_analysis vcon)) out) =
               replicate (length extracted) ''wtf_transcription'' \<and>
             map an_dialog (appended_entries (length (nv_analysis vcon)) out) =
               map (\<lambda>a. Some (OneIndex (ea_dialogIndex a))) extracted \<and>
             sorted_wrt (<) (map ea_dialogIndex extracted) \<and>
             nv_updated_at out = Some (env_clock env (length extracted)) \<and>
             st_dialogsProcessed stats = length extracted)) \<and>
         (audioDialogs \<noteq> [] \<and> extracted = [] \<longrightarrow>
          transcribeVcon env input options =
            Inr (TranscriptionFailure ''Failed to extract audio from any dialog''
                   (Some (map extraction_detail
                            (ex_errors (extractAudioFromDialogs env audioDialogs)))))) \<and>
         ((\<exists>a \<in> set extracted.
             \<exists>err. pc_transcribe (selected_provider env options) (request_of options a) = Inl err) \<longrightarrow>
          (\<exists>err. transcribeVcon env input options = Inl err))"
proof (intro conjI impI)
  assume "extracted \<noteq> [] \<and>
          (\<forall>a \<in> set extracted.
             \<exists>r. pc_transcribe (selected_provider env options) (request_of options a) = Inr r)"
  then have ne: "extracted \<noteq> []"
    and ok: "\<forall>a \<in> set extracted.
               \<exists>r. pc_transcribe (selected_provider env options) (request_of options a) = Inr r"
    by simp_all
  let ?p = "selected_provider env options"
  have "\<forall>p \<in> set (map (pc_transcribe ?p) (map (request_of options) extracted)). \<exists>x. p = Inr x"
    using ok by auto
  from promise_all_all_resolved [OF this] obtain rs
    where batch: "transcribeBatch ?p (map (request_of options) extracted) = Inr rs"
      and rs: "map (pc_transcribe ?p) (map (request_of options) extracted) = map Inr rs"
    by (auto simp: transcribeBatch_def)
  from rs have len: "length rs = length extracted"
    by (metis length_map)
  let ?ins = "map enrichment_input (zip extracted rs)"
  let ?out = "enrichVconWithTranscriptions (env_clock env) vcon ?ins"
  have ins_len: "length ?ins = length extracted" using len by simp
  have ins_idx: "map (\<lambda>input. Some (OneIndex (ei_dialogIndex input))) ?ins =
                 map (\<lambda>a. Some (OneIndex (ea_dialogIndex a))) extracted"
    using len by (intro nth_equalityI) (simp_all add: enrichment_input_def)
  from run_dispatched [OF conf parse extr ne] batch obtain stats
    where run: "transcribeVcon env input options = Inr (TranscriptionSuccess ?out stats)"
      and st: "st_dialogsProcessed stats = length (zip extracted rs)"
    by (simp add: transcribeVcon_def)
  from parse_input_analysis [OF parse] obtain data
    where data: "env_safeParse env input = Inr data"
      "nv_analysis vcon = or_empty (v_analysis data)"
    by blast
  have sorted: "sorted_wrt (<) (map ea_dialogIndex extracted)"
    using extracted_indices_sorted [OF audio_dialogs_sorted [OF parse], of env] extr by simp
  have app: "appended_entries (length (nv_analysis vcon)) ?out =
             fst (enrich_loop (env_clock env) ?ins ([], 0))"
    by (simp add: appended_entries_def enrich_analysis)
  have ty: "map an_type (appended_entries (length (nv_analysis vcon)) ?out) =
            replicate (length extracted) ''wtf_transcription''"
    using len by (simp add: app enrich_loop_types)
  have di: "map an_dialog (appended_entries (length (nv_analysis vcon)) ?out) =
            map (\<lambda>a. Some (OneIndex (ea_dialogIndex a))) extracted"
    by (simp only: app enrich_loop_dialogs ins_idx)
  have l: "length (fst (enrich_loop (env_clock env) ?ins ([], 0))) = length extracted"
    using enrich_loop_types [of "env_clock env" ?ins] ins_len
    by (metis length_map length_replicate)
  have ln: "length (nv_analysis ?out) = length (nv_analysis vcon) + length extracted"
    by (simp add: enrich_analysis l)
  have tk: "take (length (nv_analysis vcon)) (nv_analysis ?out) = nv_analysis vcon"
    by (simp add: enrich_analysis)
  have up: "nv_updated_at ?out = Some (env_clock env (length extracted))"
    using len by (simp add: enrich_updated_at)
  have pr: "st_dialogsProcessed stats = length extracted"
    using st len by simp
  from run data ln tk ty di sorted up pr
  show "\<exists>out stats data.
          transcribeVcon env input options = Inr (TranscriptionSuccess out stats) \<and>
          env_safeParse env input = Inr data \<and>
          nv_analysis vcon = or_empty (v_analysis data) \<and>
          length (nv_analysis out) = length (nv_analysis vcon) + length extracted \<and>
          take (length (nv_analysis vcon)) (nv_analysis out) = nv_analysis vcon \<and>
          map an_type (appended_entries (length (nv_analysis vcon)) out) =
            replicate (length extracted) ''wtf_transcription'' \<and>
          map an_dialog (appended_entries (length (nv_analysis vcon)) out) =
            map (\<lambda>a. Some (OneIndex (ea_dialogIndex a))) extracted \<and>
          sorted_wrt (<) (map ea_dialogIndex extracted) \<and>
          nv_updated_at out = Some (env_clock env (length extracted)) \<and>
          st_dialogsProcessed stats = length extracted"
    by blast
next
  assume "audioDialogs \<noteq> [] \<and> extracted = []"
  with run_no_extraction [OF conf parse] extr
  show "transcribeVcon env input options =
          Inr (TranscriptionFailure ''Failed to extract audio from any dialog''
                 (Some (map extraction_detail
                          (ex_errors (extractAudioFromDialogs env audioDialogs)))))"
    by (simp add: transcribeVcon_def)
next
  assume "\<exists>a \<in> set extracted.
            \<exists>err. pc_transcribe (selected_provider env options) (request_of options a) = Inl err"
  then obtain a err where a: "a \<in> set extracted"
    and e: "pc_transcribe (selected_provider env options) (request_of options a) = Inl err"
    by blast
  from a have ne: "extracted \<noteq> []" by auto
  from a e have "Inl err \<in> set (map (pc_transcribe (selected_provider env options))
                                (map (request_of options) extracted))"
    by force
  from promise_all_rejected [OF this] obtain err'
    where "transcribeBatch (selected_provider env options)
             (map (request_of options) extracted) = Inl err'"
    by (auto simp: transcribeBatch_def)
  with run_dispatched [OF conf parse extr ne]
  show "\<exists>err. transcribeVcon env input options = Inl err"
    by (simp add: transcribeVcon_def)
qed

text \<open>
  Claim C3, as amended. For a valid document without audio-bearing dialogs: when the
  selected provider is configured, the call ends after the parsing step (no extraction,
  dispatch or enrichment step is entered) in the failure
  \<^verbatim>\<open>No audio dialogs found in VCON\<close>, which carries no details list, whereas a
  validation failure carries the list of path and message; when the selected provider
  is not configured, the call ends before parsing in a failure without details.
\<close>

theorem no_audio_dialogs_failure:
  assumes valid: "env_safeParse env input = Inr data"
    and none: "filter isAudioDialog (or_empty (v_dialog data)) = []"
  shows "(pc_isConfigured (selected_provider env options) \<longrightarrow>
          transcribeVcon_run env input options =
            ([ParseValidate],
             Inr (TranscriptionFailure ''No audio dialogs found in VCON'' None)) \<and>
          transcribeVcon env input options =
            Inr (TranscriptionFailure ''No audio dialogs found in VCON'' None) \<and>
          string_includes ''No audio dialogs found in VCON'' ''No audio dialogs'' \<and>
          (\<forall>input' errors. env_safeParse env input' = Inl errors \<longrightarrow>
             transcribeVcon env input' options =
               Inr (TranscriptionFailure ''Invalid VCON format''
                      (Some (map issue_detail errors))))) \<and>
         (\<not> pc_isConfigured (selected_provider env options) \<longrightarrow>
          (\<exists>message. transcribeVcon_run env input options =
                       ([], Inr (TranscriptionFailure message None))))"
proof (intro conjI impI)
  assume conf: "pc_isConfigured (selected_provider env options)"
  let ?ds = "or_empty (v_dialog data)"
  have "filter (\<lambda>entry. isAudioDialog (snd entry))
          (map (\<lambda>(dialog, index). (index, dialog)) (zip ?ds [0..<length ?ds])) = []"
  proof -
    have "\<not> isAudioDialog d" if "d \<in> set ?ds" for d
      using none that by (auto simp: filter_empty_conv)
    then show ?thesis
      by (auto simp: filter_empty_conv dest: set_zip_leftD)
  qed
  then have "parseVcon (env_safeParse env) input = ParseResult (normalizeVcon data) []"
    using valid by (simp add: parseVcon_def Let_def normalizeVcon_def)
  from run_no_audio [OF conf this]
  show run: "transcribeVcon_run env input options =
      ([ParseValidate], Inr (TranscriptionFailure ''No audio dialogs found in VCON'' None))" .
  then show "transcribeVcon env input options =
      Inr (TranscriptionFailure ''No audio dialogs found in VCON'' None)"
    by (simp add: transcribeVcon_def)
  show "string_includes ''No audio dialogs found in VCON'' ''No audio dialogs''"
    by (simp add: string_includes_def upt_rec)
  show "\<forall>input' errors. env_safeParse env input' = Inl errors \<longrightarrow>
          transcribeVcon env input' options =
            Inr (TranscriptionFailure ''Invalid VCON format'' (Some (map issue_detail errors)))"
    using run_invalid [OF conf] by (simp add: transcribeVcon_def)
next
  assume "\<not> pc_isConfigured (selected_provider env options)"
  from run_unconfigured [OF this]
  show "\<exists>message. transcribeVcon_run env input options =
                    ([], Inr (TranscriptionFailure message None))" .
qed

text \<open>
  Claim C4, as amended. When the pipeline of every document returns (which it does when
  the backend answers every request), the batch route replies with one result per
  document at the document's position, a failed document has its own record of error
  and details, and the summary has \<open>total\<close> the number of inputs, \<open>succeeded\<close> the
  number of successful results and \<open>succeeded + failed = total\<close>. When the pipeline of
  one document is rejected, the whole request is rejected.
\<close>

theorem batch_results_and_summary:
  "((\<forall>v \<in> set vcons. \<exists>r. transcribeVcon env v (Some options) = Inr r) \<longrightarrow>
      (\<exists>reply. transcribeBatchRoute env vcons options = Inr reply \<and>
         length (br_results reply) = length vcons \<and>
         map Inr (br_results reply) =
           map (\<lambda>v. map_sum id batch_item (transcribeVcon env v (Some options))) vcons \<and>
         (\<forall>i < length vcons. \<forall>error details.
            transcribeVcon env (vcons ! i) (Some options) =
              Inr (TranscriptionFailure error details) \<longrightarrow>
            br_results reply ! i = BatchFailure error details) \<and>
         bs_total (br_summary reply) = length vcons \<and>
         bs_succeeded (br_summary reply) = length (filter item_success (br_results reply)) \<and>
         bs_succeeded (br_summary reply) + bs_failed (br_summary reply) =
           bs_total (br_summary reply))) \<and>
   ((\<forall>req. \<exists>r. pc_transcribe (selected_provider env (Some options)) req = Inr r) \<longrightarrow>
      (\<forall>v. \<exists>r. transcribeVcon env v (Some options) = Inr r)) \<and>
   ((\<exists>v \<in> set vcons. \<exists>err. transcribeVcon env v (Some options) = Inl err) \<longrightarrow>
      (\<exists>err. transcribeBatchRoute env vcons options = Inl err))"
proof (intro conjI impI)
  let ?f = "\<lambda>v. map_sum id batch_item (transcribeVcon env v (Some options))"
  assume all: "\<forall>v \<in> set vcons. \<exists>r. transcribeVcon env v (Some options) = Inr r"
  then have "\<forall>p \<in> set (map ?f vcons). \<exists>x. p = Inr x" by auto
  from promise_all_all_resolved [OF this] obtain results
    where pa: "promise_all (map ?f vcons) = Inr results"
      and rs: "map ?f vcons = map Inr results"
    by blast
  from rs have len: "length results = length vcons" by (metis length_map)
  let ?reply = "\<lparr>br_results = results,
                 br_summary =
                   \<lparr>bs_total = length results,
                    bs_succeeded = length (filter item_success results),
                    bs_failed = length results - length (filter item_success results),
                    bs_provider = option_or (to_provider options) nvidia\<rparr>\<rparr>"
  have route: "transcribeBatchRoute env vcons options = Inr ?reply"
    by (simp add: transcribeBatchRoute_def pa Let_def)
  have fail: "results ! i = BatchFailure error details"
    if "i < length vcons"
      and "transcribeVcon env (vcons ! i) (Some options) = Inr (TranscriptionFailure error details)"
    for i error details
  proof -
    have "map ?f vcons ! i = map Inr results ! i" using rs by simp
    with that len show ?thesis by (simp add: batch_item_def)
  qed
  have le: "length (filter item_success results) \<le> length results" by (rule length_filter_le)
  show "\<exists>reply. transcribeBatchRoute env vcons options = Inr reply \<and>
         length (br_results reply) = length vcons \<and>
         map Inr (br_results reply) = map ?f vcons \<and>
         (\<forall>i < length vcons. \<forall>error details.
            transcribeVcon env (vcons ! i) (Some options) =
              Inr (TranscriptionFailure error details) \<longrightarrow>
            br_results reply ! i = BatchFailure error details) \<and>
         bs_total (br_summary reply) = length vcons \<and>
         bs_succeeded (br_summary reply) = length (filter item_success (br_results reply)) \<and>
         bs_succeeded (br_summary reply) + bs_failed (br_summary reply) =
           bs_total (br_summary reply)"
    apply (rule exI [of _ ?reply])
    using route len rs fail le by simp
next
  assume "\<forall>req. \<exists>r. pc_transcribe (selected_provider env (Some options)) req = Inr r"
  from transcribeVcon_returns [OF this]
  show "\<forall>v. \<exists>r. transcribeVcon env v (Some options) = Inr r" by blast
next
  assume "\<exists>v \<in> set vcons. \<exists>err. transcribeVcon env v (Some options) = Inl err"
  then obtain v err where "v \<in> set vcons" "transcribeVcon env v (Some options) = Inl err"
    by blast
  then have "Inl err \<in> set (map (\<lambda>v. map_sum id batch_item (transcribeVcon env v (Some options))) vcons)"
    by force
  from promise_all_rejected [OF this]
  show "\<exists>err. transcribeBatchRoute env vcons options = Inl err"
    by (auto simp: transcribeBatchRoute_def)
qed

lemmas schema_defs =
  VconSchema_safeParse_def VconSchema_issues_def required_string_def optional_string_def
  each_entry_def or_empty_def PartySchema_def DialogSchema_def AnalysisSchema_def
  optional_ref_def exclusive_count_def ex_formats_def matches_template_def is_hex_digit_def
  is_decimal_digit_def version_regex_test_def ex_party_def ex_audio_dialog_def ex_summary_def
  truthy_def issue_def cx_empty_dialog_def

lemma ex_safeParse_valid: "VconSchema_safeParse ex_formats ex_valid_raw = Inr ex_valid_vcon"
  by (simp add: schema_defs ex_valid_raw_def ex_valid_vcon_def)

lemma ex_safeParse_no_dialog:
  "VconSchema_safeParse ex_formats ex_no_dialog_raw = Inr (ex_valid_vcon\<lparr>v_dialog := None\<rparr>)"
  by (simp add: schema_defs ex_no_dialog_raw_def ex_valid_raw_def ex_valid_vcon_def)

lemma ex_safeParse_unextractable:
  "VconSchema_safeParse ex_formats cx_unextractable_raw =
     Inr (ex_valid_vcon\<lparr>v_dialog := Some [cx_empty_dialog]\<rparr>)"
  by (simp add: schema_defs cx_unextractable_raw_def ex_valid_raw_def ex_valid_vcon_def)

lemma ex_safeParse_missing_uuid:
  "VconSchema_safeParse ex_formats ex_missing_uuid_raw =
     Inl [\<lparr>zi_path = [Key ''uuid''], zi_message = ''Required''\<rparr>]"
  by (simp add: schema_defs ex_missing_uuid_raw_def ex_valid_raw_def)

lemma ex_is_audio: "isAudioDialog ex_audio_dialog" "isAudioDialog cx_empty_dialog"
  by (simp_all add: isAudioDialog_def truthy_def isSupportedAudioType_def
        SUPPORTED_AUDIO_TYPES_def ex_audio_dialog_def cx_empty_dialog_def)

lemma ex_parse_valid:
  "parseVcon (env_safeParse ex_env) ex_valid_raw =
     ParseResult (normalizeVcon ex_valid_vcon) [(0, ex_audio_dialog)]"
  by (simp add: parseVcon_def ex_env_def ex_safeParse_valid Let_def ex_is_audio)
     (simp add: normalizeVcon_def ex_valid_vcon_def or_empty_def ex_is_audio)

lemma ex_parse_unextractable:
  "parseVcon (env_safeParse ex_env) cx_unextractable_raw =
     ParseResult (normalizeVcon (ex_valid_vcon\<lparr>v_dialog := Some [cx_empty_dialog]\<rparr>))
       [(0, cx_empty_dialog)]"
  by (simp add: parseVcon_def ex_env_def ex_safeParse_unextractable Let_def)
     (simp add: normalizeVcon_def ex_valid_vcon_def or_empty_def ex_is_audio)

lemma ex_extraction:
  "ex_extracted (extractAudioFromDialogs env [(0, ex_audio_dialog)]) =
     (if real (length (decodeBase64Url env ''dGVzdA=='')) >
           cfg_maxAudioSizeMb (env_config env) * 1024 * 1024
      then []
      else [\<lparr>ea_dialogIndex = 0, ea_buffer = decodeBase64Url env ''dGVzdA=='',
             ea_mediatype = ''audio/wav'', ea_duration = None\<rparr>])"
  by (simp add: extractAudioFromDialogs_def extract_step_def ex_is_audio Let_def
        extractAudioFromDialog_def)
     (simp add: ex_audio_dialog_def truthy_def)

lemma ex_extraction_env:
  "ex_extracted (extractAudioFromDialogs ex_env [(0, ex_audio_dialog)]) =
     [\<lparr>ea_dialogIndex = 0, ea_buffer = decodeBase64Url ex_env ''dGVzdA=='',
       ea_mediatype = ''audio/wav'', ea_duration = None\<rparr>]"
  by (simp add: ex_extraction) (simp add: decodeBase64Url_def ex_env_def)

lemma cx_extraction_env:
  "ex_extracted (extractAudioFromDialogs cx_env [(0, ex_audio_dialog)]) =
     [\<lparr>ea_dialogIndex = 0, ea_buffer = decodeBase64Url cx_env ''dGVzdA=='',
       ea_mediatype = ''audio/wav'', ea_duration = None\<rparr>]"
  by (simp add: ex_extraction) (simp add: decodeBase64Url_def ex_env_def cx_env_def)

lemma cx_extraction_empty:
  "extractAudioFromDialogs env [(0, cx_empty_dialog)] =
     \<lparr>ex_extracted = [],
      ex_errors = [\<lparr>ee_dialogIndex = 0, ee_error = ''Failed to extract audio content''\<rparr>],
      ex_skipped = []\<rparr>"
  by (simp add: extractAudioFromDialogs_def extract_step_def ex_is_audio Let_def
        extractAudioFromDialog_def)
     (simp add: cx_empty_dialog_def ex_audio_dialog_def truthy_def)

lemma ex_configured:
  "pc_isConfigured (selected_provider ex_env None)"
  "pc_isConfigured (selected_provider ex_env (Some ex_options))"
  "pc_isConfigured (selected_provider cx_env (Some ex_options))"
  "\<not> pc_isConfigured (selected_provider ex_env (Some cx_groq_options))"
  "selected_provider ex_env None = ex_provider"
  "selected_provider ex_env (Some ex_options) = ex_provider"
  "selected_provider cx_env (Some ex_options) = cx_failing_provider"
  by (simp_all add: selected_provider_def ex_env_def cx_env_def ex_options_def
        cx_groq_options_def option_or_def ex_provider_def cx_unconfigured_provider_def
        cx_failing_provider_def)

lemma string_of_nat_0: "string_of_nat 0 = ''0''"
  by code_simp

lemma ex_run_valid:
  "\<exists>stats. transcribeVcon ex_env ex_valid_raw (Some ex_options) =
     Inr (TranscriptionSuccess
            (enrichVconWithTranscriptions (env_clock ex_env) (normalizeVcon ex_valid_vcon)
               (map enrichment_input
                  (zip [\<lparr>ea_dialogIndex = 0, ea_buffer = decodeBase64Url ex_env ''dGVzdA=='',
                         ea_mediatype = ''audio/wav'', ea_duration = None\<rparr>] [ex_result])))
            stats)"
  using run_dispatched [OF ex_configured(2) ex_parse_valid ex_extraction_env]
  by (simp add: transcribeVcon_def transcribeBatch_def ex_configured ex_provider_def)

lemma ex_run_missing_uuid:
  "transcribeVcon ex_env ex_missing_uuid_raw (Some ex_options) =
     Inr (TranscriptionFailure ''Invalid VCON format''
            (Some [\<lparr>dt_path = ''uuid'', dt_message = ''Required''\<rparr>]))"
proof -
  have "env_safeParse ex_env ex_missing_uuid_raw =
          Inl [\<lparr>zi_path = [Key ''uuid''], zi_message = ''Required''\<rparr>]"
    by (simp add: ex_env_def ex_safeParse_missing_uuid)
  from run_invalid [OF ex_configured(2) this] show ?thesis
    by (simp add: transcribeVcon_def issue_detail_def path_elem_text_def)
qed

theorem transcribeVcon_appends_transcriptions_witness:
  "\<exists>out stats.
     transcribeVcon ex_env ex_valid_raw None = Inr (TranscriptionSuccess out stats) \<and>
     length (nv_analysis out) = 2 \<and>
     take 1 (nv_analysis out) = [ex_summary] \<and>
     map an_type (appended_entries 1 out) = [''wtf_transcription''] \<and>
     map an_dialog (appended_entries 1 out) = [Some (OneIndex 0)] \<and>
     nv_updated_at out = Some ex_now \<and>
     st_dialogsProcessed stats = 1"
proof -
  have ok: "\<forall>a \<in> set [\<lparr>ea_dialogIndex = 0, ea_buffer = decodeBase64Url ex_env ''dGVzdA=='',
                          ea_mediatype = ''audio/wav'', ea_duration = None\<rparr>].
              \<exists>r. pc_transcribe (selected_provider ex_env None) (request_of None a) = Inr r"
    by (simp add: ex_configured ex_provider_def)
  have an: "nv_analysis (normalizeVcon ex_valid_vcon) = [ex_summary]"
    by (simp add: normalizeVcon_def ex_valid_vcon_def or_empty_def)
  from transcribeVcon_appends_transcriptions
         [OF ex_configured(1) ex_parse_valid ex_extraction_env] ok
  show ?thesis
    by (simp add: an) (auto simp: ex_env_def)
qed

text \<open>
  Claim C1, as stated, fails: a valid document whose only audio-bearing dialog has
  neither a body nor a URL ends in the extraction failure, whatever the backend.
\<close>

theorem transcribeVcon_extraction_counterexample:
  "parseVcon (env_safeParse ex_env) cx_unextractable_raw =
     ParseResult (normalizeVcon (ex_valid_vcon\<lparr>v_dialog := Some [cx_empty_dialog]\<rparr>))
       [(0, cx_empty_dialog)] \<and>
   isAudioDialog cx_empty_dialog \<and>
   pc_isConfigured (selected_provider ex_env None) \<and>
   pc_transcribe (selected_provider ex_env None) = (\<lambda>req. Inr ex_result) \<and>
   transcribeVcon ex_env cx_unextractable_raw None =
     Inr (TranscriptionFailure ''Failed to extract audio from any dialog''
            (Some [\<lparr>dt_path = ''dialog[0]'', dt_message = ''Failed to extract audio content''\<rparr>]))"
proof -
  have "transcribeVcon_run ex_env cx_unextractable_raw None =
          ([ParseValidate, ExtractAudio],
           Inr (TranscriptionFailure ''Failed to extract audio from any dialog''
                  (Some (map extraction_detail
                           (ex_errors (extractAudioFromDialogs ex_env [(0, cx_empty_dialog)]))))))"
    by (rule run_no_extraction [OF ex_configured(1) ex_parse_unextractable])
       (simp_all add: cx_extraction_empty)
  then have "transcribeVcon ex_env cx_unextractable_raw None =
     Inr (TranscriptionFailure ''Failed to extract audio from any dialog''
            (Some [\<lparr>dt_path = ''dialog[0]'', dt_message = ''Failed to extract audio content''\<rparr>]))"
    by (simp add: transcribeVcon_def cx_extraction_empty extraction_detail_def
          string_of_nat_0)
  then show ?thesis
    by (simp add: ex_parse_unextractable ex_is_audio ex_configured ex_provider_def)
qed

lemma cx_message_excludes: "\<not> string_includes cx_message ''No audio dialogs''"
  by code_simp

theorem no_audio_dialogs_failure_witness:
  "transcribeVcon_run ex_env ex_no_dialog_raw None =
     ([ParseValidate], Inr (TranscriptionFailure ''No audio dialogs found in VCON'' None)) \<and>
   transcribeVcon ex_env ex_missing_uuid_raw None =
     Inr (TranscriptionFailure ''Invalid VCON format''
            (Some [\<lparr>dt_path = ''uuid'', dt_message = ''Required''\<rparr>]))"
proof -
  have v: "env_safeParse ex_env ex_no_dialog_raw = Inr (ex_valid_vcon\<lparr>v_dialog := None\<rparr>)"
    by (simp add: ex_env_def ex_safeParse_no_dialog)
  have n: "filter isAudioDialog (or_empty (v_dialog (ex_valid_vcon\<lparr>v_dialog := None\<rparr>))) = []"
    by (simp add: or_empty_def)
  have m: "env_safeParse ex_env ex_missing_uuid_raw =
          Inl [\<lparr>zi_path = [Key ''uuid''], zi_message = ''Required''\<rparr>]"
    by (simp add: ex_env_def ex_safeParse_missing_uuid)
  from no_audio_dialogs_failure [OF v n, of None] ex_configured(1) m show ?thesis
    by (simp add: issue_detail_def path_elem_text_def)
qed

text \<open>
  Claim C3, as stated, fails: the configuration check comes before parsing, so with an
  unconfigured provider the same document ends in the configuration failure.
\<close>

theorem no_audio_dialogs_unconfigured_counterexample:
  "env_safeParse ex_env ex_no_dialog_raw = Inr (ex_valid_vcon\<lparr>v_dialog := None\<rparr>) \<and>
   filter isAudioDialog (or_empty (v_dialog (ex_valid_vcon\<lparr>v_dialog := None\<rparr>))) = [] \<and>
   transcribeVcon ex_env ex_no_dialog_raw (Some cx_groq_options) =
     Inr (TranscriptionFailure cx_message None) \<and>
   \<not> string_includes cx_message ''No audio dialogs''"
proof -
  have "transcribeVcon ex_env ex_no_dialog_raw (Some cx_groq_options) =
          Inr (TranscriptionFailure cx_message None)"
    using ex_configured(4)
    by (simp add: transcribeVcon_def transcribeVcon_run_def selected_provider_def Let_def
          cx_message_def)
       (simp add: cx_groq_options_def ex_options_def option_or_def provider_name_def)
  then show ?thesis
    by (simp add: ex_env_def ex_safeParse_no_dialog or_empty_def cx_message_excludes)
qed

theorem batch_results_and_summary_witness:
  "\<exists>reply vcon.
     transcribeBatchRoute ex_env [ex_valid_raw, ex_missing_uuid_raw] ex_options = Inr reply \<and>
     br_results reply =
       [BatchSuccess vcon,
        BatchFailure ''Invalid VCON format''
          (Some [\<lparr>dt_path = ''uuid'', dt_message = ''Required''\<rparr>])] \<and>
     bs_total (br_summary reply) = 2 \<and>
     bs_succeeded (br_summary reply) = 1 \<and>
     bs_failed (br_summary reply) = 1"
proof -
  from ex_run_valid obtain stats vcon
    where a: "transcribeVcon ex_env ex_valid_raw (Some ex_options) =
                Inr (TranscriptionSuccess vcon stats)"
    by blast
  note b = ex_run_missing_uuid
  have "\<forall>v \<in> set [ex_valid_raw, ex_missing_uuid_raw].
          \<exists>r. transcribeVcon ex_env v (Some ex_options) = Inr r"
    using a b by simp
  with batch_results_and_summary [of "[ex_valid_raw, ex_missing_uuid_raw]" ex_env ex_options]
  obtain reply where r:
    "transcribeBatchRoute ex_env [ex_valid_raw, ex_missing_uuid_raw] ex_options = Inr reply"
    "map Inr (br_results reply) =
       map (\<lambda>v. map_sum id batch_item (transcribeVcon ex_env v (Some ex_options)))
         [ex_valid_raw, ex_missing_uuid_raw]"
    "bs_total (br_summary reply) = length [ex_valid_raw, ex_missing_uuid_raw]"
    "bs_succeeded (br_summary reply) = length (filter item_success (br_results reply))"
    "bs_succeeded (br_summary reply) + bs_failed (br_summary reply) =
       bs_total (br_summary reply)"
    by blast
  from r(2) a b have res: "br_results reply =
       [BatchSuccess vcon,
        BatchFailure ''Invalid VCON format''
          (Some [\<lparr>dt_path = ''uuid'', dt_message = ''Required''\<rparr>])]"
    by (cases "br_results reply"; cases "tl (br_results reply)")
       (auto simp: batch_item_def)
  from r res show ?thesis
    by (intro exI [of _ reply] exI [of _ vcon]) (simp add: item_success_def)
qed

text \<open>
  Claim C4, as stated, fails: a backend failure on one document rejects the request,
  and no sibling gets a result.
\<close>

theorem batch_backend_failure_counterexample:
  "transcribeBatchRoute cx_env [ex_valid_raw, ex_missing_uuid_raw] ex_options =
     Inl ''NVIDIA NIM returned 500: error''"
proof -
  have p: "parseVcon (env_safeParse cx_env) ex_valid_raw =
     ParseResult (normalizeVcon ex_valid_vcon) [(0, ex_audio_dialog)]"
    using ex_parse_valid by (simp add: cx_env_def ex_env_def)
  from run_dispatched [OF ex_configured(3) p cx_extraction_env]
  have "transcribeVcon cx_env ex_valid_raw (Some ex_options) =
          Inl ''NVIDIA NIM returned 500: error''"
    by (simp add: transcribeVcon_def transcribeBatch_def ex_configured cx_failing_provider_def)
  then show ?thesis
    by (simp add: transcribeBatchRoute_def)
qed

end
